theory Spec2Isabelle
  imports Complex_Main
begin

section \<open>CLIME: the bLIMEy explainer and the fidelity metrics\<close>

text \<open>
  A shallow embedding of \<^verbatim>\<open>clime/explainer/BLIMEY.py\<close> and
  \<^verbatim>\<open>clime/evaluation/faithfulness.py\<close>.

  Conventions of the embedding:
  \<^item> a numpy array of numbers is a list; a 2-D array is the list of its rows. Numbers
    are \<open>real\<close> (rounding is abstracted away); the special values that a numpy
    division can produce are explicit in \<open>np_float\<close>;
  \<^item> a raised exception is \<open>Inl\<close> of an \<open>error\<close>, a returned value is \<open>Inr\<close>;
  \<^item> a call of \<^verbatim>\<open>warnings.warn\<close> appends to a log that the function returns;
  \<^item> numpy's process-wide random generator is an explicit state that the sampling
    call reads and returns advanced;
  \<^item> the functions of numpy and scikit-learn, and the functions of the modules
    \<^verbatim>\<open>clime.data.costs\<close> and \<^verbatim>\<open>clime.data\<close> that the two files call, are
    fields of an environment record: the definitions below hold for any behaviour
    of them;
  \<^item> a Python name that starts or ends with an underscore is written without it
    (\<open>sample_locally\<close> for \<^verbatim>\<open>_sample_locally\<close>, \<open>coef\<close> for \<^verbatim>\<open>coef_\<close>); the methods
    \<^verbatim>\<open>predict\<close> and \<^verbatim>\<open>predict_proba\<close> of the explainer are \<open>bLIMEy_predict\<close> and
    \<open>bLIMEy_predict_proba\<close>.
\<close>

subsection \<open>Values, errors, warnings\<close>

type_synonym vector = "real list"
type_synonym matrix = "real list list"

datatype error =
    ZeroDivisionError
  | ValueError
  | IndexError
  | AttributeError
  | OtherError string

text \<open>Python's exception hierarchy: \<^verbatim>\<open>ZeroDivisionError\<close> is the only error above that
  derives from \<^verbatim>\<open>ArithmeticError\<close>.\<close>

fun is_ArithmeticError :: "error \<Rightarrow> bool" where
  "is_ArithmeticError ZeroDivisionError = True"
| "is_ArithmeticError ValueError = False"
| "is_ArithmeticError IndexError = False"
| "is_ArithmeticError AttributeError = False"
| "is_ArithmeticError (OtherError s) = False"

datatype warning =
    Warning string
  | RuntimeWarning string

datatype np_float = Finite real | PosInf | NegInf | NaN

text \<open>The value of Python's builtin \<^verbatim>\<open>sum\<close> and \<^verbatim>\<open>len\<close>: a Python \<^verbatim>\<open>int\<close>, or a numpy
  scalar (\<^verbatim>\<open>np.int64\<close>, \<^verbatim>\<open>np.float64\<close>).\<close>

datatype py_num = PyInt int | NpScalar real

subsection \<open>The data model\<close>

text \<open>The dictionaries \<^verbatim>\<open>{'X': ..., 'y': ..., 'p(y)': ...}\<close>: \<^verbatim>\<open>'y'\<close> (an \<^verbatim>\<open>int64\<close>
  array) and \<^verbatim>\<open>'p(y)'\<close> may be absent.\<close>

record dataset =
  data_X :: matrix
  data_y :: "int list option"
  data_p_y :: "matrix option"

text \<open>An object with \<^verbatim>\<open>predict\<close> and \<^verbatim>\<open>predict_proba\<close>: the black box, and any
  explainer handed to the fidelity metrics.\<close>

record model =
  predict :: "matrix \<Rightarrow> error + int list"
  predict_proba :: "matrix \<Rightarrow> error + matrix"

text \<open>The fitted \<^verbatim>\<open>sklearn.linear_model.Ridge\<close>: \<^verbatim>\<open>coef_\<close> has one row per regression
  target (row \<open>k\<close> belongs to column \<open>k\<close> of the probability matrix it was fitted
  on), \<^verbatim>\<open>intercept_\<close> one entry per target.\<close>

record surrogate =
  coef :: matrix
  intercept :: vector

record bLIMEy =
  query_point :: vector
  data_test :: "dataset option"
  sampling_cov :: "matrix option"
  samples :: int
  class_weight_data :: bool
  class_weight_sampled :: bool
  weight_locally :: bool
  rebalance_sampled_data :: bool
  sampled_data :: "dataset option"
  surrogate_model :: "surrogate option"

text \<open>What the two files call and do not define. \<open>'g\<close> is the state of numpy's
  process-wide generator: \<^verbatim>\<open>np.random.multivariate_normal(mean, cov, size)\<close> reads it and
  leaves it advanced.\<close>

record 'g env =
  multivariate_normal :: "'g \<Rightarrow> vector \<Rightarrow> matrix \<Rightarrow> int \<Rightarrow> (error + matrix) \<times> 'g"
  np_cov :: "matrix \<Rightarrow> error + matrix"
  weights_based_on_distance :: "vector \<Rightarrow> matrix \<Rightarrow> error + vector"
  weight_based_on_class_imbalance :: "dataset option \<Rightarrow> error + vector"
  balance_oversample :: "dataset \<Rightarrow> error + dataset"
  Ridge_fit :: "matrix \<Rightarrow> matrix \<Rightarrow> vector \<Rightarrow> error + surrogate"
  Ridge_predict :: "surrogate \<Rightarrow> matrix \<Rightarrow> error + matrix"

subsection \<open>numpy and Python primitives\<close>

definition np_eye :: "nat \<Rightarrow> matrix" where
  "np_eye n = map (\<lambda>i. map (\<lambda>j. if i = j then 1 else 0) [0..<n]) [0..<n]"

definition np_ones :: "nat \<Rightarrow> vector" where
  "np_ones n = replicate n 1"

text \<open>\<^verbatim>\<open>np.heaviside(x1, x2)\<close>: 0 below zero, \<open>x2\<close> at zero, 1 above.\<close>

definition np_heaviside :: "real \<Rightarrow> real \<Rightarrow> real" where
  "np_heaviside x1 x2 = (if x1 < 0 then 0 else if x1 = 0 then x2 else 1)"

text \<open>A float stored into an \<^verbatim>\<open>int64\<close> array (\<^verbatim>\<open>astype(np.int64)\<close>, or an assignment
  into an integer array) is truncated towards zero.\<close>

definition to_int64 :: "real \<Rightarrow> int" where
  "to_int64 x = (if 0 \<le> x then \<lfloor>x\<rfloor> else \<lceil>x\<rceil>)"

text \<open>\<^verbatim>\<open>np.round\<close>: to the nearest integer, halves to the even one.\<close>

definition np_round :: "real \<Rightarrow> real" where
  "np_round x =
     (let f = \<lfloor>x\<rfloor>; d = x - of_int f
      in if d < 1 / 2 then of_int f
         else if 1 / 2 < d then of_int (f + 1)
         else if even f then of_int f else of_int (f + 1))"

text \<open>An elementwise operation on two 1-D arrays, with numpy's broadcasting: equal
  lengths, or one of them of length 1; any other pair of shapes raises.\<close>

definition np_elementwise :: "('a \<Rightarrow> 'b \<Rightarrow> 'c) \<Rightarrow> 'a list \<Rightarrow> 'b list \<Rightarrow> error + 'c list" where
  "np_elementwise f a b =
     (if length a = length b then Inr (map2 f a b)
      else if length a = 1 then Inr (map (f (hd a)) b)
      else if length b = 1 then Inr (map (\<lambda>x. f x (hd b)) a)
      else Inl ValueError)"

text \<open>The in-place \<^verbatim>\<open>a *= b\<close>: the result has the shape of \<open>a\<close>, so only \<open>b\<close> may be
  broadcast.\<close>

definition np_imul :: "vector \<Rightarrow> vector \<Rightarrow> error + vector" where
  "np_imul a b =
     (if length a = length b then Inr (map2 (*) a b)
      else if length b = 1 then Inr (map (\<lambda>x. x * hd b) a)
      else Inl ValueError)"

text \<open>\<^verbatim>\<open>np.dot(M, v)\<close> of a 2-D array and a 1-D array: every row of \<open>M\<close> must have
  the length of \<open>v\<close>.\<close>

definition np_dot :: "matrix \<Rightarrow> vector \<Rightarrow> error + vector" where
  "np_dot M v =
     (if list_all (\<lambda>r. length r = length v) M
      then Inr (map (\<lambda>r. sum_list (map2 (*) r v)) M)
      else Inl ValueError)"

text \<open>\<^verbatim>\<open>P[:, 1]\<close>: column 1 of a 2-D array; an array with fewer than two columns
  raises \<^verbatim>\<open>IndexError\<close>.\<close>

definition column_1 :: "matrix \<Rightarrow> error + vector" where
  "column_1 P =
     (if list_all (\<lambda>r. 2 \<le> length r) P then Inr (map (\<lambda>r. r ! 1) P) else Inl IndexError)"

text \<open>Python's builtin \<^verbatim>\<open>sum\<close> starts from the \<^verbatim>\<open>int\<close> 0 and adds the entries from the
  left: on an empty array it returns the Python \<^verbatim>\<open>int\<close> 0, otherwise a numpy scalar.\<close>

definition py_sum :: "vector \<Rightarrow> py_num" where
  "py_sum xs = (if xs = [] then PyInt 0 else NpScalar (foldl (+) 0 xs))"

definition py_len :: "'a list \<Rightarrow> py_num" where
  "py_len xs = PyInt (int (length xs))"

text \<open>The operator \<^verbatim>\<open>/\<close>. Between two Python \<^verbatim>\<open>int\<close>s a zero divisor raises
  \<^verbatim>\<open>ZeroDivisionError\<close>. As soon as one operand is a numpy scalar, numpy divides: a
  zero divisor gives \<^verbatim>\<open>nan\<close> (0/0) or an infinity, with a \<^verbatim>\<open>RuntimeWarning\<close> and no
  exception. (The warning's message is cut after \<^verbatim>\<open>encountered\<close>: its end names the operation
  and changes with the version of numpy.)\<close>

definition np_divide :: "real \<Rightarrow> real \<Rightarrow> warning list \<times> (error + np_float)" where
  "np_divide a b =
     (if b \<noteq> 0 then ([], Inr (Finite (a / b)))
      else if a = 0 then ([RuntimeWarning ''invalid value encountered''], Inr NaN)
      else ([RuntimeWarning ''divide by zero encountered''],
            Inr (if 0 < a then PosInf else NegInf)))"

fun true_divide :: "py_num \<Rightarrow> py_num \<Rightarrow> warning list \<times> (error + np_float)" where
  "true_divide (PyInt a) (PyInt b) =
     (if b = 0 then ([], Inl ZeroDivisionError) else ([], Inr (Finite (of_int a / of_int b))))"
| "true_divide (PyInt a) (NpScalar b) = np_divide (of_int a) b"
| "true_divide (NpScalar a) (PyInt b) = np_divide a (of_int b)"
| "true_divide (NpScalar a) (NpScalar b) = np_divide a b"

subsection \<open>\<^verbatim>\<open>clime/explainer/BLIMEY.py\<close>\<close>

text \<open>\<^verbatim>\<open>_get_local_sampling_cov\<close>\<close>

definition get_local_sampling_cov :: "'g env \<Rightarrow> bLIMEy \<Rightarrow> error + matrix" where
  "get_local_sampling_cov e b =
     (case sampling_cov b of
        None \<Rightarrow>
          (case data_test b of
             None \<Rightarrow> Inr (np_eye (length (query_point b)))
           | Some d \<Rightarrow> np_cov e (transpose (data_X d)))
      | Some c \<Rightarrow> Inr c)"

text \<open>\<^verbatim>\<open>_sample_locally\<close>: draws from the process-wide generator (no seed is passed),
  then asks the black box for the labels of the drawn points.\<close>

definition sample_locally :: "'g env \<Rightarrow> model \<Rightarrow> bLIMEy \<Rightarrow> 'g \<Rightarrow> (error + bLIMEy) \<times> 'g" where
  "sample_locally e black_box_model b g =
     (case get_local_sampling_cov e b of
        Inl err \<Rightarrow> (Inl err, g)
      | Inr cov \<Rightarrow>
          (case multivariate_normal e g (query_point b) cov (samples b) of
             (Inl err, g') \<Rightarrow> (Inl err, g')
           | (Inr Xs, g') \<Rightarrow>
               (case predict black_box_model Xs of
                  Inl err \<Rightarrow> (Inl err, g')
                | Inr ys \<Rightarrow>
                    (Inr (b\<lparr>sampled_data :=
                             Some \<lparr>data_X = Xs, data_y = Some ys, data_p_y = None\<rparr>\<rparr>), g'))))"

text \<open>The two blocks of \<^verbatim>\<open>_train_surrogate\<close> that multiply the weights by the class
  weights of each sampled point: \<^verbatim>\<open>weights *= np.dot(np.round(p), class_weights.T)\<close>.\<close>

definition apply_class_weights :: "'g env \<Rightarrow> dataset option \<Rightarrow> matrix \<Rightarrow> vector \<Rightarrow> error + vector" where
  "apply_class_weights e d p weights =
     (case weight_based_on_class_imbalance e d of
        Inl err \<Rightarrow> Inl err
      | Inr class_weights \<Rightarrow>
          (case np_dot (map (map np_round) p) class_weights of
             Inl err \<Rightarrow> Inl err
           | Inr instance_class_imbalance_weights \<Rightarrow>
               np_imul weights instance_class_imbalance_weights))"

text \<open>\<^verbatim>\<open>_train_surrogate\<close>\<close>

definition train_surrogate :: "'g env \<Rightarrow> model \<Rightarrow> bLIMEy \<Rightarrow> error + bLIMEy" where
  "train_surrogate e black_box_model b =
     (case sampled_data b of
        None \<Rightarrow> Inl AttributeError
      | Some sd0 \<Rightarrow>
     (case (if rebalance_sampled_data b then balance_oversample e sd0 else Inr sd0) of
        Inl err \<Rightarrow> Inl err
      | Inr sd1 \<Rightarrow>
     (case predict_proba black_box_model (data_X sd1) of
        Inl err \<Rightarrow> Inl err
      | Inr p \<Rightarrow>
     (let sd = sd1\<lparr>data_p_y := Some p\<rparr> in
     (case (if weight_locally b
            then weights_based_on_distance e (query_point b) (data_X sd)
            else Inr (np_ones (length (data_X sd)))) of
        Inl err \<Rightarrow> Inl err
      | Inr w0 \<Rightarrow>
     (case (if class_weight_data b
            then apply_class_weights e (data_test b) p w0 else Inr w0) of
        Inl err \<Rightarrow> Inl err
      | Inr w1 \<Rightarrow>
     (case (if class_weight_sampled b
            then apply_class_weights e (Some sd) p w1 else Inr w1) of
        Inl err \<Rightarrow> Inl err
      | Inr weights \<Rightarrow>
     (case Ridge_fit e (data_X sd) p weights of
        Inl err \<Rightarrow> Inl err
      | Inr sm \<Rightarrow> Inr (b\<lparr>sampled_data := Some sd, surrogate_model := Some sm\<rparr>)))))))))"

text \<open>\<^verbatim>\<open>__init__\<close>: stores the arguments, samples, trains. The defaults of the signature
  are 10000 samples, \<^verbatim>\<open>weight_locally=True\<close> and the other three flags \<^verbatim>\<open>False\<close>.\<close>

definition init_fields ::
  "vector \<Rightarrow> dataset option \<Rightarrow> matrix option \<Rightarrow> int \<Rightarrow> bool \<Rightarrow> bool \<Rightarrow> bool \<Rightarrow> bool \<Rightarrow> bLIMEy" where
  "init_fields qp dat scov n cwd cws wl rsd =
     \<lparr>query_point = qp, data_test = dat, sampling_cov = scov, samples = n,
      class_weight_data = cwd, class_weight_sampled = cws, weight_locally = wl,
      rebalance_sampled_data = rsd, sampled_data = None, surrogate_model = None\<rparr>"

definition bLIMEy_init ::
  "'g env \<Rightarrow> model \<Rightarrow> vector \<Rightarrow> dataset option \<Rightarrow> matrix option \<Rightarrow> int \<Rightarrow>
     bool \<Rightarrow> bool \<Rightarrow> bool \<Rightarrow> bool \<Rightarrow> 'g \<Rightarrow> (error + bLIMEy) \<times> 'g" where
  "bLIMEy_init e black_box_model qp dat scov n cwd cws wl rsd g =
     (case sample_locally e black_box_model (init_fields qp dat scov n cwd cws wl rsd) g of
        (Inl err, g') \<Rightarrow> (Inl err, g')
      | (Inr b, g') \<Rightarrow> (train_surrogate e black_box_model b, g'))"

text \<open>\<^verbatim>\<open>get_explanation\<close>: \<^verbatim>\<open>self.surrogate_model.coef_[0, :]\<close>, the row of index 0.\<close>

definition get_explanation :: "bLIMEy \<Rightarrow> error + vector" where
  "get_explanation b =
     (case surrogate_model b of
        None \<Rightarrow> Inl AttributeError
      | Some sm \<Rightarrow> (case coef sm of [] \<Rightarrow> Inl IndexError | r # rs \<Rightarrow> Inr r))"

text \<open>\<^verbatim>\<open>predict_proba\<close> and \<^verbatim>\<open>predict\<close> of the explainer.\<close>

definition bLIMEy_predict_proba :: "'g env \<Rightarrow> bLIMEy \<Rightarrow> matrix \<Rightarrow> error + matrix" where
  "bLIMEy_predict_proba e b Xs =
     (case surrogate_model b of
        None \<Rightarrow> Inl AttributeError
      | Some sm \<Rightarrow> Ridge_predict e sm Xs)"

definition bLIMEy_predict :: "'g env \<Rightarrow> bLIMEy \<Rightarrow> matrix \<Rightarrow> error + int list" where
  "bLIMEy_predict e b Xs =
     (case surrogate_model b of
        None \<Rightarrow> Inl AttributeError
      | Some sm \<Rightarrow>
          (case Ridge_predict e sm Xs of
             Inl err \<Rightarrow> Inl err
           | Inr P \<Rightarrow>
               (case column_1 P of
                  Inl err \<Rightarrow> Inl err
                | Inr probability_class_1 \<Rightarrow>
                    Inr (map (\<lambda>p. to_int64 (np_heaviside (p - 0.5) 1)) probability_class_1))))"

subsection \<open>\<^verbatim>\<open>clime/evaluation/faithfulness.py\<close>\<close>

text \<open>\<^verbatim>\<open>_get_preds\<close>: \<^verbatim>\<open>(bb_preds == expl_preds).astype(np.int64)\<close>. Two label arrays that
  cannot be broadcast against each other make the comparison fail.\<close>

definition get_preds :: "model \<Rightarrow> model \<Rightarrow> dataset \<Rightarrow> error + int list" where
  "get_preds expl black_box_model d =
     (case predict black_box_model (data_X d) of
        Inl err \<Rightarrow> Inl err
      | Inr bb_preds \<Rightarrow>
          (case predict expl (data_X d) of
             Inl err \<Rightarrow> Inl err
           | Inr expl_preds \<Rightarrow>
               np_elementwise (\<lambda>p q. if p = q then 1 else 0) bb_preds expl_preds))"

text \<open>\<^verbatim>\<open>weights[mask] = v\<close> on an \<^verbatim>\<open>int64\<close> array.\<close>

definition assign_mask :: "int list \<Rightarrow> bool list \<Rightarrow> real \<Rightarrow> int list" where
  "assign_mask weights msk v = map2 (\<lambda>w m. if m then to_int64 v else w) weights msk"

text \<open>\<^verbatim>\<open>_get_class_weights\<close>. Without \<^verbatim>\<open>'y'\<close> it warns and returns ones. With \<^verbatim>\<open>'y'\<close>,
  \<^verbatim>\<open>weights\<close> is a copy of the label array (so an integer array); the first loop takes
  the masks of the labels, the second stores the class weight of every label.\<close>

definition no_class_data :: warning where
  "no_class_data = Warning ''No class data 'y': not using class balanced weightings''"

definition get_class_weights :: "'g env \<Rightarrow> dataset \<Rightarrow> warning list \<times> (error + vector)" where
  "get_class_weights e d =
     (case data_y d of
        None \<Rightarrow>
          ([no_class_data], Inr (np_ones (length (data_X d))))
      | Some ys \<Rightarrow>
          (case weight_based_on_class_imbalance e (Some d) of
             Inl err \<Rightarrow> ([], Inl err)
           | Inr weightings \<Rightarrow>
               (let masks = map (\<lambda>i. map (\<lambda>w. w = int i) ys) [0..<length weightings];
                    weights = foldl (\<lambda>ws i. assign_mask ws (masks ! i) (weightings ! i))
                                ys [0..<length weightings]
                in ([], Inr (map of_int weights)))))"

text \<open>\<^verbatim>\<open>fidelity\<close>: \<^verbatim>\<open>sum(same_preds)/len(same_preds)\<close>.\<close>

definition fidelity :: "model \<Rightarrow> model \<Rightarrow> dataset \<Rightarrow> warning list \<times> (error + np_float)" where
  "fidelity expl black_box_model d =
     (case get_preds expl black_box_model d of
        Inl err \<Rightarrow> ([], Inl err)
      | Inr same_preds \<Rightarrow> true_divide (py_sum (map of_int same_preds)) (py_len same_preds))"

text \<open>The last two lines of the three weighted metrics:
  \<^verbatim>\<open>sum(same_preds*weights)/ sum(weights)\<close>.\<close>

definition weighted_score :: "int list \<Rightarrow> vector \<Rightarrow> warning list \<times> (error + np_float)" where
  "weighted_score same_preds weights =
     (case np_elementwise (\<lambda>s w. of_int s * w) same_preds weights of
        Inl err \<Rightarrow> ([], Inl err)
      | Inr sw \<Rightarrow> true_divide (py_sum sw) (py_sum weights))"

definition local_fidelity ::
  "'g env \<Rightarrow> model \<Rightarrow> model \<Rightarrow> dataset \<Rightarrow> vector \<Rightarrow> warning list \<times> (error + np_float)" where
  "local_fidelity e expl black_box_model d qp =
     (case get_preds expl black_box_model d of
        Inl err \<Rightarrow> ([], Inl err)
      | Inr same_preds \<Rightarrow>
          (case weights_based_on_distance e qp (data_X d) of
             Inl err \<Rightarrow> ([], Inl err)
           | Inr weights \<Rightarrow> weighted_score same_preds weights))"

definition bal_fidelity ::
  "'g env \<Rightarrow> model \<Rightarrow> model \<Rightarrow> dataset \<Rightarrow> warning list \<times> (error + np_float)" where
  "bal_fidelity e expl black_box_model d =
     (case get_preds expl black_box_model d of
        Inl err \<Rightarrow> ([], Inl err)
      | Inr same_preds \<Rightarrow>
          (case get_class_weights e d of
             (wl, Inl err) \<Rightarrow> (wl, Inl err)
           | (wl, Inr weights) \<Rightarrow>
               (case weighted_score same_preds weights of (wl', r) \<Rightarrow> (wl @ wl', r))))"

definition local_and_bal_fidelity ::
  "'g env \<Rightarrow> model \<Rightarrow> model \<Rightarrow> dataset \<Rightarrow> vector \<Rightarrow> warning list \<times> (error + np_float)" where
  "local_and_bal_fidelity e expl black_box_model d qp =
     (case get_preds expl black_box_model d of
        Inl err \<Rightarrow> ([], Inl err)
      | Inr same_preds \<Rightarrow>
          (case weights_based_on_distance e qp (data_X d) of
             Inl err \<Rightarrow> ([], Inl err)
           | Inr w0 \<Rightarrow>
               (case get_class_weights e d of
                  (wl, Inl err) \<Rightarrow> (wl, Inl err)
                | (wl, Inr cw) \<Rightarrow>
                    (case np_imul w0 cw of
                       Inl err \<Rightarrow> (wl, Inl err)
                     | Inr weights \<Rightarrow>
                         (case weighted_score same_preds weights of
                            (wl', r) \<Rightarrow> (wl @ wl', r))))))"

subsection \<open>Concrete collaborators for running the definitions\<close>

text \<open>A small environment on which the definitions can be evaluated. Its generator
  state is a counter; a draw returns the mean shifted by the counter and advances it,
  whatever the covariance (with its default \<^verbatim>\<open>check_valid='warn'\<close> numpy's sampler
  returns samples also for a matrix that is not positive semi-definite). The
  distance weights are all ones, the class weights are \<open>[1, 1]\<close>. The fit returns the
  constant model: one row of zero coefficients for each column of the targets, and
  the weighted mean of the column as its intercept. A surrogate predicts
  \<open>X coef\<^sup>T + intercept\<close> and, as the predictor of scikit-learn does, raises
  \<^verbatim>\<open>ValueError\<close> on a matrix with no row or with another number of features than the
  coefficient rows.\<close>

definition constant_fit :: "matrix \<Rightarrow> matrix \<Rightarrow> vector \<Rightarrow> error + surrogate" where
  "constant_fit Xs P w =
     Inr \<lparr>coef = map (\<lambda>col. replicate (case Xs of [] \<Rightarrow> 0 | x # xs \<Rightarrow> length x) 0) (transpose P),
          intercept = map (\<lambda>col. sum_list (map2 (*) w col) / sum_list w) (transpose P)\<rparr>"

definition linear_predict :: "surrogate \<Rightarrow> matrix \<Rightarrow> error + matrix" where
  "linear_predict sm Xs =
     (if Xs = [] then Inl ValueError
      else if list_all (\<lambda>x. list_all (\<lambda>c. length c = length x) (coef sm)) Xs
      then Inr (map (\<lambda>x. map2 (\<lambda>c b. sum_list (map2 (*) c x) + b) (coef sm) (intercept sm)) Xs)
      else Inl ValueError)"

definition counter_env :: "nat env" where
  "counter_env =
     \<lparr>multivariate_normal =
        (\<lambda>g mean cov n. (Inr (replicate (nat n) (map (\<lambda>m. m + real g) mean)), Suc g)),
      np_cov = (\<lambda>M. Inr (np_eye (length M))),
      weights_based_on_distance = (\<lambda>qp Xs. Inr (np_ones (length Xs))),
      weight_based_on_class_imbalance = (\<lambda>d. Inr [1, 1]),
      balance_oversample = Inr,
      Ridge_fit = constant_fit,
      Ridge_predict = linear_predict\<rparr>"

text \<open>The same environment with a sampler that raises.\<close>

definition raising_env :: "nat env" where
  "raising_env = counter_env\<lparr>multivariate_normal := (\<lambda>g mean cov n. (Inl ValueError, g))\<rparr>"

text \<open>A fitted surrogate for two classes and two features: the class-1 output is the
  mean of the two features, the class-0 output is one minus it.\<close>

definition fitted :: surrogate where
  "fitted = \<lparr>coef = [[- 1 / 2, - 1 / 2], [1 / 2, 1 / 2]], intercept = [1, 0]\<rparr>"

text \<open>The same environment with distance weights that are all zero (an exponential
  kernel underflows to exactly 0.0 far from the query point) and class weights below
  one (which an integer array stores as 0).\<close>

definition zero_weight_env :: "nat env" where
  "zero_weight_env =
     counter_env\<lparr>weights_based_on_distance := (\<lambda>qp Xs. Inr (replicate (length Xs) 0)),
                 weight_based_on_class_imbalance := (\<lambda>d. Inr [1 / 2, 1 / 2])\<rparr>"

text \<open>The same environment with distance weights that decrease with the squared
  distance \<open>r\<close> to the query point, as \<open>1 / (1 + r)\<close>, and with the class weights
  \<open>[3/2, 3]\<close>.\<close>

definition kernel_env :: "nat env" where
  "kernel_env =
     counter_env\<lparr>weights_based_on_distance :=
                   (\<lambda>qp Xs. Inr (map (\<lambda>x. 1 / (1 + sum_list (map2 (\<lambda>a b. (a - b) * (a - b)) x qp))) Xs)),
                 weight_based_on_class_imbalance := (\<lambda>d. Inr [3 / 2, 3])\<rparr>"

text \<open>A black box that labels a point 1 when its coordinates sum to more than 1, with
  the two-column probabilities of that label; the same black box refusing a matrix with
  no row, as the estimators of scikit-learn do; and one with three probability
  columns.\<close>

definition threshold_box :: model where
  "threshold_box =
     \<lparr>predict = (\<lambda>Xs. Inr (map (\<lambda>x. if 1 < sum_list x then 1 else 0) Xs)),
      predict_proba = (\<lambda>Xs. Inr (map (\<lambda>x. if 1 < sum_list x then [0, 1] else [1, 0]) Xs))\<rparr>"

definition refusing_box :: model where
  "refusing_box =
     \<lparr>predict = (\<lambda>Xs. if Xs = [] then Inl ValueError else predict threshold_box Xs),
      predict_proba = (\<lambda>Xs. if Xs = [] then Inl ValueError else predict_proba threshold_box Xs)\<rparr>"

definition three_class_box :: model where
  "three_class_box =
     \<lparr>predict = (\<lambda>Xs. Inr (map (\<lambda>x. 2) Xs)),
      predict_proba = (\<lambda>Xs. Inr (map (\<lambda>x. [1 / 4, 1 / 4, 1 / 2]) Xs))\<rparr>"

text \<open>The quadratic form \<open>v\<^sup>T C v\<close>: a matrix with a negative value of it is not positive
  semi-definite.\<close>

definition quadratic_form :: "matrix \<Rightarrow> vector \<Rightarrow> real" where
  "quadratic_form C v = sum_list (map2 (*) v (map (\<lambda>r. sum_list (map2 (*) r v)) C))"

text \<open>The sampled features of the outcome of a sampling step, when it succeeded.\<close>

definition sampled_X :: "error + bLIMEy \<Rightarrow> matrix option" where
  "sampled_X r = (case r of Inl err \<Rightarrow> None | Inr b \<Rightarrow> map_option data_X (sampled_data b))"

text \<open>An explainer object as the fidelity metrics see it.\<close>

definition as_model :: "'g env \<Rightarrow> bLIMEy \<Rightarrow> model" where
  "as_model e b = \<lparr>predict = bLIMEy_predict e b, predict_proba = bLIMEy_predict_proba e b\<rparr>"

definition config :: "vector \<Rightarrow> dataset option \<Rightarrow> matrix option \<Rightarrow> int \<Rightarrow> bLIMEy" where
  "config qp dat scov n = init_fields qp dat scov n False False True False"

definition trained :: bLIMEy where
  "trained = (config [1 / 2, 1 / 2] None None 2)\<lparr>surrogate_model := Some fitted\<rparr>"

definition three_points :: dataset where
  "three_points = \<lparr>data_X = [[0, 0], [1, 1], [1 / 2, 1 / 2]], data_y = None, data_p_y = None\<rparr>"

definition three_points_labelled :: dataset where
  "three_points_labelled = three_points\<lparr>data_y := Some [0, 1, 0]\<rparr>"

definition no_points :: dataset where
  "no_points = \<lparr>data_X = [], data_y = None, data_p_y = None\<rparr>"

section \<open>The explanation interface\<close>

text \<open>
  Claim C1. The specification says that \<^verbatim>\<open>get_explanation()\<close> returns the class-1 coefficient
  row of the surrogate's coefficient matrix. The code returns \<^verbatim>\<open>coef_[0, :]\<close>: the
  row of index 0, which belongs to column 0 of the probability matrix the surrogate
  was fitted on, the probability of class 0 (\<^verbatim>\<open>predict\<close> reads class 1 from column 1).
  On the surrogate \<open>fitted\<close> the class-1 row is \<open>[1/2, 1/2]\<close> and the explanation is
  \<open>[-1/2, -1/2]\<close>.
\<close>

theorem get_explanation_class_1_counterexample:
  "surrogate_model trained = Some fitted \<and>
   get_explanation trained = Inr [- 1 / 2, - 1 / 2] \<and>
   coef fitted ! 1 = [1 / 2, 1 / 2] \<and>
   get_explanation trained \<noteq> Inr (coef fitted ! 1)"
  by (simp add: get_explanation_def trained_def fitted_def)

text \<open>
  Claim C1, as amended. For every explainer with a fitted surrogate whose coefficient
  matrix has a row, \<^verbatim>\<open>get_explanation()\<close> returns row 0 of the matrix, the class-0
  coefficient row; when the class-1 row is the negation of the class-0 row, the
  explanation is the negation of the class-1 row.
\<close>

theorem get_explanation_row_0:
  assumes "surrogate_model b = Some sm" and "coef sm \<noteq> []"
  shows "get_explanation b = Inr (coef sm ! 0) \<and>
         (coef sm ! 1 = map uminus (coef sm ! 0) \<longrightarrow>
            get_explanation b = Inr (map uminus (coef sm ! 1)))"
proof -
  from assms obtain r rs where c: "coef sm = r # rs"
    by (cases "coef sm") auto
  have "map uminus (map uminus r) = r"
    by (simp add: comp_def)
  with assms(1) c show ?thesis
    by (simp add: get_explanation_def)
qed

theorem get_explanation_row_0_witness:
  "surrogate_model trained = Some fitted \<and> coef fitted \<noteq> [] \<and>
   coef fitted ! 1 = map uminus (coef fitted ! 0) \<and>
   get_explanation trained = Inr (coef fitted ! 0) \<and>
   get_explanation trained = Inr (map uminus (coef fitted ! 1)) \<and>
   coef fitted ! 0 = [- 1 / 2, - 1 / 2]"
proof -
  have h1: "surrogate_model trained = Some fitted"
    by (simp add: trained_def)
  have h2: "coef fitted \<noteq> []"
    by (simp add: fitted_def)
  have h3: "coef fitted ! 1 = map uminus (coef fitted ! 0)"
    by (simp add: fitted_def)
  from get_explanation_row_0 [OF h1 h2] h1 h2 h3 show ?thesis
    by (simp add: fitted_def)
qed

lemma to_int64_heaviside:
  "to_int64 (np_heaviside (p - 0.5) 1) = (if 1 / 2 \<le> p then 1 else 0)"
  by (simp add: to_int64_def np_heaviside_def)

lemma bLIMEy_predict_labels:
  assumes "surrogate_model b = Some sm" and "Ridge_predict e sm Xs = Inr P"
    and "list_all (\<lambda>r. 2 \<le> length r) P"
  shows "bLIMEy_predict e b Xs = Inr (map (\<lambda>r. if 1 / 2 \<le> r ! 1 then 1 else 0) P)"
proof -
  have "(\<lambda>p. to_int64 (np_heaviside (p - 0.5) 1)) = (\<lambda>p. if 1 / 2 \<le> p then 1 else 0)"
    by (rule ext) (rule to_int64_heaviside)
  then have "bLIMEy_predict e b Xs =
      Inr (map (\<lambda>p. if 1 / 2 \<le> p then 1 else 0) (map (\<lambda>r. r ! 1) P))"
    using assms unfolding bLIMEy_predict_def column_1_def by simp
  then show ?thesis
    by (simp add: comp_def)
qed

text \<open>
  Claim C10. Whenever the surrogate's regression output \<open>P\<close> for the input matrix has a
  class-1 column, \<^verbatim>\<open>predict(X)\<close> returns one label per row, every label is the integer
  0 or 1, the label of a row is 1 exactly when its class-1 output is at least 0.5, and
  so a row whose class-1 output is exactly 0.5 is labelled 1. (Numbers are reals here:
  a \<^verbatim>\<open>nan\<close> output is outside the model.)
\<close>

theorem predict_thresholds_at_half:
  assumes "surrogate_model b = Some sm" and "Ridge_predict e sm Xs = Inr P"
    and "list_all (\<lambda>r. 2 \<le> length r) P"
  shows "\<exists>labels. bLIMEy_predict e b Xs = Inr labels \<and> length labels = length P \<and>
           set labels \<subseteq> {0, 1} \<and>
           (\<forall>i < length P. labels ! i = (if 1 / 2 \<le> P ! i ! 1 then 1 else 0)) \<and>
           (\<forall>i < length P. P ! i ! 1 = 1 / 2 \<longrightarrow> labels ! i = 1)"
  unfolding bLIMEy_predict_labels [OF assms] by auto

theorem predict_thresholds_at_half_witness:
  "surrogate_model trained = Some fitted \<and>
   Ridge_predict counter_env fitted (data_X three_points) = Inr [[1, 0], [0, 1], [1 / 2, 1 / 2]] \<and>
   bLIMEy_predict counter_env trained (data_X three_points) = Inr [0, 1, 1]"
proof -
  have h1: "surrogate_model trained = Some fitted"
    by (simp add: trained_def)
  have h2: "Ridge_predict counter_env fitted (data_X three_points) = Inr [[1, 0], [0, 1], [1 / 2, 1 / 2]]"
    by (simp add: counter_env_def linear_predict_def fitted_def three_points_def)
  have h3: "list_all (\<lambda>r. 2 \<le> length r) [[1, 0], [0, 1], [1 / 2, 1 / 2 :: real]]"
    by simp
  from predict_thresholds_at_half [OF h1 h2 h3]
  obtain labels where l: "bLIMEy_predict counter_env trained (data_X three_points) = Inr labels"
    and n: "length labels = Suc (Suc (Suc 0))"
    and v: "\<forall>i < Suc (Suc (Suc 0)).
              labels ! i = (if 1 / 2 \<le> [[1, 0], [0, 1], [1 / 2, 1 / 2 :: real]] ! i ! 1 then 1 else 0)"
    by (auto simp: numeral_3_eq_3)
  from v have "labels ! 0 = 0" "labels ! Suc 0 = 1" "labels ! Suc (Suc 0) = 1"
    by simp_all
  with n have "labels = [0, 1, 1]"
    by (auto simp: length_Suc_conv)
  with l h1 h2 show ?thesis by simp
qed

section \<open>Sampling\<close>

lemma np_eye_entries:
  "length (np_eye n) = n \<and> (\<forall>i < n. length (np_eye n ! i) = n \<and>
      (\<forall>j < n. np_eye n ! i ! j = (if i = j then 1 else 0)))"
  by (simp add: np_eye_def)

text \<open>
  Claim C6. The sampling covariance is the explicit override when one is supplied;
  otherwise, when a reference dataset is supplied, what \<^verbatim>\<open>np.cov\<close> returns on the
  transposed features of the dataset; otherwise the identity matrix whose size is the
  length of the query point.
\<close>

theorem sampling_cov_resolution:
  "(sampling_cov b = Some c \<longrightarrow> get_local_sampling_cov e b = Inr c) \<and>
   (sampling_cov b = None \<and> data_test b = Some d \<longrightarrow>
      get_local_sampling_cov e b = np_cov e (transpose (data_X d))) \<and>
   (sampling_cov b = None \<and> data_test b = None \<longrightarrow>
      (\<exists>I. get_local_sampling_cov e b = Inr I \<and> length I = length (query_point b) \<and>
        (\<forall>i < length (query_point b). length (I ! i) = length (query_point b) \<and>
           (\<forall>j < length (query_point b). I ! i ! j = (if i = j then 1 else 0)))))"
  using np_eye_entries [of "length (query_point b)"]
  by (simp add: get_local_sampling_cov_def)

theorem sampling_cov_resolution_witness:
  "get_local_sampling_cov counter_env (config [0, 0] (Some three_points) (Some [[3, 0], [0, 3]]) 1)
     = Inr [[3, 0], [0, 3]] \<and>
   get_local_sampling_cov counter_env (config [0, 0] (Some three_points) None 1)
     = np_cov counter_env [[0, 1, 1 / 2], [0, 1, 1 / 2]] \<and>
   get_local_sampling_cov counter_env (config [0, 0] None None 1) = Inr [[1, 0], [0, 1]]"
proof -
  let ?b1 = "config [0, 0] (Some three_points) (Some [[3, 0], [0, 3]]) 1"
  let ?b2 = "config [0, 0] (Some three_points) None 1"
  let ?b3 = "config [0, 0] None None 1"
  have t: "transpose (data_X three_points) = [[0, 1, 1 / 2], [0, 1, 1 / 2]]"
    by (simp add: three_points_def transpose.simps)
  have "get_local_sampling_cov counter_env ?b1 = Inr [[3, 0], [0, 3]]"
    using sampling_cov_resolution [of ?b1 "[[3, 0], [0, 3]]" counter_env]
    by (simp add: config_def init_fields_def)
  moreover have "get_local_sampling_cov counter_env ?b2 = np_cov counter_env [[0, 1, 1 / 2], [0, 1, 1 / 2]]"
    using sampling_cov_resolution [of ?b2 _ counter_env three_points] t
    by (simp add: config_def init_fields_def)
  moreover have "get_local_sampling_cov counter_env ?b3 = Inr [[1, 0], [0, 1]]"
  proof -
    from sampling_cov_resolution [of ?b3 _ counter_env]
    obtain I where I: "get_local_sampling_cov counter_env ?b3 = Inr I" "length I = Suc (Suc 0)"
      "\<forall>i < Suc (Suc 0). length (I ! i) = Suc (Suc 0) \<and>
           (\<forall>j < Suc (Suc 0). I ! i ! j = (if i = j then 1 else 0))"
      by (auto simp: config_def init_fields_def)
    from I(3) have "length (I ! 0) = Suc (Suc 0)" "length (I ! Suc 0) = Suc (Suc 0)"
      "I ! 0 ! 0 = 1" "I ! 0 ! Suc 0 = 0" "I ! Suc 0 ! 0 = 0" "I ! Suc 0 ! Suc 0 = 1"
      by simp_all
    with I(2) have "I = [[1, 0], [0, 1]]"
      by (auto simp: length_Suc_conv)
    with I(1) show ?thesis by simp
  qed
  ultimately show ?thesis by simp
qed

text \<open>
  Claim C2. The specification asks that identical (query point, covariance, count, seed)
  give identical sampled features, the randomness coming from a seed parameter only.
  \<^verbatim>\<open>_sample_locally\<close> has no seed parameter: it calls
  \<^verbatim>\<open>np.random.multivariate_normal(self.query_point, cov, self.samples)\<close>, which draws from
  the process-wide generator. Two runs on the same query point, covariance and count, the
  second one starting in the generator state the first one left, sample different
  features.
\<close>

theorem sample_locally_unseeded_counterexample:
  "sampled_X (fst (sample_locally counter_env threshold_box (config [0] None None 1) 0)) = Some [[0]] \<and>
   snd (sample_locally counter_env threshold_box (config [0] None None 1) 0) = 1 \<and>
   sampled_X (fst (sample_locally counter_env threshold_box (config [0] None None 1) 1)) = Some [[1]]"
  by (simp add: sampled_X_def sample_locally_def get_local_sampling_cov_def config_def
      init_fields_def counter_env_def threshold_box_def np_eye_def)

text \<open>
  Claim C2, as amended. The sampled features are the draw of
  \<^verbatim>\<open>np.random.multivariate_normal\<close> from the state of the process-wide generator, which
  the call advances: two sampling steps with the same query point, resolved covariance
  and count that start in the same generator state produce identical sampled
  features and leave the same state, whatever the black box and the other settings.
  No seed is passed.
\<close>

theorem sample_locally_reads_generator_state:
  assumes "get_local_sampling_cov e b1 = Inr c" and "get_local_sampling_cov e b2 = Inr c"
    and "query_point b2 = query_point b1" and "samples b2 = samples b1"
    and "sample_locally e bb1 b1 g = (Inr b1', g1)"
    and "sample_locally e bb2 b2 g = (Inr b2', g2)"
  shows "\<exists>Xs. multivariate_normal e g (query_point b1) c (samples b1) = (Inr Xs, g1) \<and>
           sampled_X (Inr b1') = Some Xs \<and> sampled_X (Inr b2') = Some Xs \<and> g2 = g1"
  using assms
  by (auto simp: sample_locally_def sampled_X_def split: prod.splits sum.splits)

theorem sample_locally_reads_generator_state_witness:
  "sampled_X (fst (sample_locally counter_env threshold_box (config [0] None None 1) 5)) = Some [[5]] \<and>
   sampled_X (fst (sample_locally counter_env three_class_box
       (config [0] (Some three_points) (Some [[1]]) 1) 5)) = Some [[5]] \<and>
   snd (sample_locally counter_env threshold_box (config [0] None None 1) 5) = 6 \<and>
   snd (sample_locally counter_env three_class_box
       (config [0] (Some three_points) (Some [[1]]) 1) 5) = 6"
proof -
  let ?b1 = "config [0] None None 1"
  let ?b2 = "config [0] (Some three_points) (Some [[1]]) 1"
  let ?b1' = "?b1\<lparr>sampled_data := Some \<lparr>data_X = [[5]], data_y = Some [1], data_p_y = None\<rparr>\<rparr>"
  let ?b2' = "?b2\<lparr>sampled_data := Some \<lparr>data_X = [[5]], data_y = Some [2], data_p_y = None\<rparr>\<rparr>"
  have c1: "get_local_sampling_cov counter_env ?b1 = Inr [[1]]"
    by (simp add: get_local_sampling_cov_def config_def init_fields_def np_eye_def)
  have c2: "get_local_sampling_cov counter_env ?b2 = Inr [[1]]"
    by (simp add: get_local_sampling_cov_def config_def init_fields_def)
  have q: "query_point ?b2 = query_point ?b1" and n: "samples ?b2 = samples ?b1"
    by (simp_all add: config_def init_fields_def)
  have s1: "sample_locally counter_env threshold_box ?b1 5 = (Inr ?b1', 6)"
    by (simp add: sample_locally_def get_local_sampling_cov_def config_def
      init_fields_def counter_env_def threshold_box_def np_eye_def)
  have s2: "sample_locally counter_env three_class_box ?b2 5 = (Inr ?b2', 6)"
    by (simp add: sample_locally_def get_local_sampling_cov_def config_def
      init_fields_def counter_env_def three_class_box_def)
  from sample_locally_reads_generator_state [OF c1 c2 q n s1 s2]
  obtain Xs where "multivariate_normal counter_env 5 (query_point ?b1) [[1]] (samples ?b1) = (Inr Xs, 6)"
    and x: "sampled_X (Inr ?b1') = Some Xs" "sampled_X (Inr ?b2') = Some Xs"
    by blast
  then have "Xs = [[5]]"
    by (simp add: counter_env_def config_def init_fields_def)
  with x s1 s2 show ?thesis by simp
qed

text \<open>
  Claim C3. The specification asks that construction fails with an \<^verbatim>\<open>InvalidArgument\<close>
  error when the resolved covariance is not positive semi-definite. The code contains
  no test of the covariance and raises nothing of its own; it hands the matrix to the
  sampler. The \<open>1 \<times> 1\<close> matrix \<open>[[-1]]\<close> is not positive semi-definite (its quadratic
  form at \<open>[1]\<close> is \<open>-1\<close>), and the construction with it completes.
\<close>

theorem init_psd_counterexample:
  "quadratic_form [[- 1]] [1] = - 1 \<and>
   fst (bLIMEy_init counter_env threshold_box [0] None (Some [[- 1]]) 2 False False True False 0) =
     Inr ((init_fields [0] None (Some [[- 1]]) 2 False False True False)
            \<lparr>sampled_data := Some \<lparr>data_X = [[0], [0]], data_y = Some [0, 0],
                                   data_p_y = Some [[1, 0], [1, 0]]\<rparr>,
             surrogate_model := Some \<lparr>coef = [[0], [0]], intercept = [1, 0]\<rparr>\<rparr>)"
  by (simp add: quadratic_form_def bLIMEy_init_def sample_locally_def get_local_sampling_cov_def
      init_fields_def counter_env_def threshold_box_def train_surrogate_def np_ones_def
      constant_fit_def transpose.simps numeral_2_eq_2)

text \<open>
  Claim C3, as amended. Construction makes no test of the resolved covariance: it
  passes the matrix unchanged to \<^verbatim>\<open>np.random.multivariate_normal\<close>. When that call
  raises, construction fails at once with the error of the call; when it returns
  samples, construction goes on to label them and to train, whatever the matrix.
\<close>

theorem init_passes_covariance_unchecked:
  assumes "get_local_sampling_cov e (init_fields qp dat scov n cwd cws wl rsd) = Inr c"
    and "multivariate_normal e g qp c n = (r, g')"
  shows "(\<forall>err. r = Inl err \<longrightarrow>
            bLIMEy_init e bb qp dat scov n cwd cws wl rsd g = (Inl err, g')) \<and>
         (\<forall>Xs ys. r = Inr Xs \<and> predict bb Xs = Inr ys \<longrightarrow>
            bLIMEy_init e bb qp dat scov n cwd cws wl rsd g =
              (train_surrogate e bb ((init_fields qp dat scov n cwd cws wl rsd)
                 \<lparr>sampled_data := Some \<lparr>data_X = Xs, data_y = Some ys, data_p_y = None\<rparr>\<rparr>), g'))"
proof -
  have q: "query_point (init_fields qp dat scov n cwd cws wl rsd) = qp"
    and s: "samples (init_fields qp dat scov n cwd cws wl rsd) = n"
    by (simp_all add: init_fields_def)
  show ?thesis
    using assms by (simp add: bLIMEy_init_def sample_locally_def q s)
qed

theorem init_passes_covariance_unchecked_witness:
  "get_local_sampling_cov counter_env (init_fields [0] None (Some [[- 1]]) 2 False False True False)
     = Inr [[- 1]] \<and>
   multivariate_normal counter_env 0 [0] [[- 1]] 2 = (Inr [[0], [0]], 1) \<and>
   predict threshold_box [[0], [0]] = Inr [0, 0] \<and>
   bLIMEy_init counter_env threshold_box [0] None (Some [[- 1]]) 2 False False True False 0 =
     (train_surrogate counter_env threshold_box
        ((init_fields [0] None (Some [[- 1]]) 2 False False True False)
           \<lparr>sampled_data := Some \<lparr>data_X = [[0], [0]], data_y = Some [0, 0], data_p_y = None\<rparr>\<rparr>), 1) \<and>
   multivariate_normal raising_env 0 [0] [[- 1]] 2 = (Inl ValueError, 0) \<and>
   bLIMEy_init raising_env threshold_box [0] None (Some [[- 1]]) 2 False False True False 0 =
     (Inl ValueError, 0)"
proof -
  have c: "get_local_sampling_cov counter_env (init_fields [0] None (Some [[- 1]]) 2 False False True False)
     = Inr [[- 1]]"
    by (simp add: get_local_sampling_cov_def init_fields_def)
  have c': "get_local_sampling_cov raising_env (init_fields [0] None (Some [[- 1]]) 2 False False True False)
     = Inr [[- 1]]"
    by (simp add: get_local_sampling_cov_def init_fields_def)
  have m: "multivariate_normal counter_env 0 [0] [[- 1]] 2 = (Inr [[0], [0]], 1)"
    by (simp add: counter_env_def numeral_2_eq_2)
  have m': "multivariate_normal raising_env 0 [0] [[- 1]] 2 = (Inl ValueError, 0)"
    by (simp add: raising_env_def)
  have p: "predict threshold_box [[0], [0]] = Inr [0, 0]"
    by (simp add: threshold_box_def)
  from init_passes_covariance_unchecked [OF c m, of threshold_box]
    init_passes_covariance_unchecked [OF c' m', of threshold_box] c m m' p
  show ?thesis by simp
qed

section \<open>Training\<close>

text \<open>
  Claim C5. The specification asks that training fails with a \<^verbatim>\<open>PreconditionError\<close> when
  the probability matrix of the black box has a number of columns other than 2. The
  code never looks at the number of columns: with the default flags a black box with
  three probability columns is fitted like any other, one regression target per column.
\<close>

theorem train_surrogate_three_columns_counterexample:
  "predict_proba three_class_box [[0], [0]] = Inr [[1 / 4, 1 / 4, 1 / 2], [1 / 4, 1 / 4, 1 / 2]] \<and>
   fst (bLIMEy_init counter_env three_class_box [0] None None 2 False False True False 0) =
     Inr ((init_fields [0] None None 2 False False True False)
            \<lparr>sampled_data := Some \<lparr>data_X = [[0], [0]], data_y = Some [2, 2],
                 data_p_y = Some [[1 / 4, 1 / 4, 1 / 2], [1 / 4, 1 / 4, 1 / 2]]\<rparr>,
             surrogate_model := Some \<lparr>coef = [[0], [0], [0]], intercept = [1 / 4, 1 / 4, 1 / 2]\<rparr>\<rparr>)"
  by (simp add: bLIMEy_init_def sample_locally_def get_local_sampling_cov_def
      init_fields_def counter_env_def three_class_box_def train_surrogate_def np_ones_def
      constant_fit_def transpose.simps numeral_2_eq_2 np_eye_def)

text \<open>
  Claim C5, as amended. Training makes no test of the number of columns of the
  probability matrix. With both class-weight flags off it fits the ridge regression on
  the matrix as it is, whatever its number of columns, and fails only when the fit
  does. With \<^verbatim>\<open>class_weight_sampled\<close> on (and \<^verbatim>\<open>class_weight_data\<close> off), a matrix whose
  number of columns differs from the number of class weights makes \<^verbatim>\<open>np.dot\<close> raise a
  \<^verbatim>\<open>ValueError\<close>.
\<close>

theorem train_surrogate_any_columns:
  assumes "sampled_data b = Some sd0"
    and "(if rebalance_sampled_data b then balance_oversample e sd0 else Inr sd0) = Inr sd"
    and "predict_proba bb (data_X sd) = Inr p"
    and "(if weight_locally b then weights_based_on_distance e (query_point b) (data_X sd)
          else Inr (np_ones (length (data_X sd)))) = Inr w"
  shows "(\<not> class_weight_data b \<and> \<not> class_weight_sampled b \<longrightarrow>
            train_surrogate e bb b =
              (case Ridge_fit e (data_X sd) p w of
                 Inl err \<Rightarrow> Inl err
               | Inr sm \<Rightarrow> Inr (b\<lparr>sampled_data := Some (sd\<lparr>data_p_y := Some p\<rparr>),
                                  surrogate_model := Some sm\<rparr>))) \<and>
         (\<not> class_weight_data b \<and> class_weight_sampled b \<longrightarrow>
            (\<forall>cw. weight_based_on_class_imbalance e (Some (sd\<lparr>data_p_y := Some p\<rparr>)) = Inr cw \<and>
                  \<not> list_all (\<lambda>r. length r = length cw) p \<longrightarrow>
                  train_surrogate e bb b = Inl ValueError))"
  using assms
  by (auto simp: train_surrogate_def Let_def apply_class_weights_def np_dot_def list_all_iff
      split: sum.splits if_splits)

theorem train_surrogate_any_columns_witness:
  "train_surrogate counter_env three_class_box
     ((config [0] None None 2)\<lparr>sampled_data :=
         Some \<lparr>data_X = [[0], [0]], data_y = Some [2, 2], data_p_y = None\<rparr>\<rparr>) =
   Inr ((config [0] None None 2)
          \<lparr>sampled_data := Some \<lparr>data_X = [[0], [0]], data_y = Some [2, 2],
               data_p_y = Some [[1 / 4, 1 / 4, 1 / 2], [1 / 4, 1 / 4, 1 / 2]]\<rparr>,
           surrogate_model := Some \<lparr>coef = [[0], [0], [0]], intercept = [1 / 4, 1 / 4, 1 / 2]\<rparr>\<rparr>) \<and>
   train_surrogate counter_env three_class_box
     ((config [0] None None 2)\<lparr>class_weight_sampled := True, sampled_data :=
         Some \<lparr>data_X = [[0], [0]], data_y = Some [2, 2], data_p_y = None\<rparr>\<rparr>) = Inl ValueError"
proof -
  let ?sd = "\<lparr>data_X = [[0], [0]], data_y = Some [2, 2], data_p_y = None\<rparr>"
  let ?p = "[[1 / 4, 1 / 4, 1 / 2], [1 / 4, 1 / 4, 1 / 2 :: real]]"
  let ?b = "(config [0] None None 2)\<lparr>sampled_data := Some ?sd\<rparr>"
  let ?b' = "(config [0] None None 2)\<lparr>class_weight_sampled := True, sampled_data := Some ?sd\<rparr>"
  have f: "Ridge_fit counter_env [[0], [0]] ?p [1, 1] =
      Inr \<lparr>coef = [[0], [0], [0]], intercept = [1 / 4, 1 / 4, 1 / 2]\<rparr>"
    by (simp add: counter_env_def constant_fit_def transpose.simps)
  have "train_surrogate counter_env three_class_box ?b =
      Inr (?b\<lparr>sampled_data := Some (?sd\<lparr>data_p_y := Some ?p\<rparr>),
              surrogate_model := Some \<lparr>coef = [[0], [0], [0]], intercept = [1 / 4, 1 / 4, 1 / 2]\<rparr>\<rparr>)"
    using train_surrogate_any_columns [of ?b ?sd counter_env ?sd three_class_box ?p "[1, 1]"] f
    by (simp add: config_def init_fields_def counter_env_def three_class_box_def np_ones_def)
  moreover have "train_surrogate counter_env three_class_box ?b' = Inl ValueError"
    using train_surrogate_any_columns [of ?b' ?sd counter_env ?sd three_class_box ?p "[1, 1]"]
    by (simp add: config_def init_fields_def counter_env_def three_class_box_def np_ones_def)
  ultimately show ?thesis by simp
qed

section \<open>The fidelity metrics\<close>

subsection \<open>Sums, agreement vectors and the weighted score\<close>

lemma foldl_add_sum_list: "foldl (+) a xs = a + sum_list (xs :: real list)"
  by (induction xs arbitrary: a) (auto simp: algebra_simps)

lemma py_sum_nonempty: "xs \<noteq> [] \<Longrightarrow> py_sum xs = NpScalar (sum_list xs)"
  by (simp add: py_sum_def foldl_add_sum_list)

lemma get_preds_same_length:
  assumes "predict bb (data_X d) = Inr pb" and "predict expl (data_X d) = Inr pe"
    and "length pb = length (data_X d)" and "length pe = length (data_X d)"
  shows "\<exists>s. get_preds expl bb d = Inr s \<and> length s = length (data_X d) \<and>
           list_all (\<lambda>x. x = 0 \<or> x = 1) s"
  using assms by (auto simp: get_preds_def np_elementwise_def list_all_iff)

lemma weighted_sum_bounds:
  "length s = length w \<Longrightarrow> list_all (\<lambda>x. x = 0 \<or> x = 1) s \<Longrightarrow> list_all (\<lambda>x. 0 \<le> x) w \<Longrightarrow>
     0 \<le> sum_list (map2 (\<lambda>s w. of_int s * w) s (w :: real list)) \<and>
     sum_list (map2 (\<lambda>s w. of_int s * w) s w) \<le> sum_list w"
proof (induction s w rule: list_induct2)
  case Nil
  then show ?case by simp
next
  case (Cons x xs y ys)
  then show ?case by auto
qed

lemma sum_same_bounds:
  "list_all (\<lambda>x. x = 0 \<or> x = 1) s \<Longrightarrow>
     0 \<le> sum_list (map real_of_int s) \<and> sum_list (map real_of_int s) \<le> real (length s)"
  by (induction s) auto

lemma weighted_score_finite:
  assumes "length s = length w" and "sum_list w \<noteq> 0"
  shows "weighted_score s w =
     ([], Inr (Finite (sum_list (map2 (\<lambda>s w. of_int s * w) s w) / sum_list w)))"
proof -
  from assms have "w \<noteq> []" by auto
  with assms have "s \<noteq> []" by auto
  with assms \<open>w \<noteq> []\<close> show ?thesis
    by (simp add: weighted_score_def np_elementwise_def py_sum_nonempty np_divide_def)
qed

lemma weighted_score_range:
  assumes "length s = length w" and "list_all (\<lambda>x. x = 0 \<or> x = 1) s"
    and "list_all (\<lambda>x. 0 \<le> x) w" and "0 < sum_list w"
  shows "\<exists>v. weighted_score s w = ([], Inr (Finite v)) \<and> 0 \<le> v \<and> v \<le> 1"
proof -
  from assms have "weighted_score s w =
     ([], Inr (Finite (sum_list (map2 (\<lambda>s w. of_int s * w) s w) / sum_list w)))"
    by (simp add: weighted_score_finite)
  moreover from weighted_sum_bounds [OF assms(1-3)] assms(4)
  have "0 \<le> sum_list (map2 (\<lambda>s w. of_int s * w) s w) / sum_list w"
    and "sum_list (map2 (\<lambda>s w. of_int s * w) s w) / sum_list w \<le> 1"
    by simp_all
  ultimately show ?thesis by blast
qed

lemma sum_list_mult_ones:
  "sum_list (map2 (\<lambda>s w. real_of_int s * w) s (replicate (length s) 1)) = sum_list (map of_int s)"
  by (induction s) auto

lemma weighted_score_ones:
  "weighted_score s (np_ones (length s)) = true_divide (py_sum (map of_int s)) (py_len s)"
proof (cases "s = []")
  case True
  then show ?thesis
    by (simp add: weighted_score_def np_elementwise_def np_ones_def py_sum_def py_len_def)
next
  case False
  then have "replicate (length s) (1::real) \<noteq> []" by simp
  with False show ?thesis
    by (simp add: weighted_score_def np_elementwise_def np_ones_def py_sum_nonempty py_len_def
        sum_list_mult_ones sum_list_replicate)
qed

lemma fidelity_finite:
  assumes "get_preds expl bb d = Inr s" and "s \<noteq> []"
  shows "fidelity expl bb d = ([], Inr (Finite (sum_list (map of_int s) / real (length s))))"
  using assms by (simp add: fidelity_def py_sum_nonempty py_len_def np_divide_def)

lemma local_fidelity_score:
  assumes "get_preds expl bb d = Inr s" and "weights_based_on_distance e qp (data_X d) = Inr w"
  shows "local_fidelity e expl bb d qp = weighted_score s w"
  using assms by (simp add: local_fidelity_def)

lemma bal_fidelity_score:
  assumes "get_preds expl bb d = Inr s" and "snd (get_class_weights e d) = Inr w"
  shows "snd (bal_fidelity e expl bb d) = snd (weighted_score s w)"
  using assms by (cases "get_class_weights e d") (simp add: bal_fidelity_def split: prod.splits)

lemma local_and_bal_fidelity_score:
  assumes "get_preds expl bb d = Inr s" and "weights_based_on_distance e qp (data_X d) = Inr w0"
    and "snd (get_class_weights e d) = Inr cw" and "np_imul w0 cw = Inr w"
  shows "snd (local_and_bal_fidelity e expl bb d qp) = snd (weighted_score s w)"
  using assms
  by (cases "get_class_weights e d") (simp add: local_and_bal_fidelity_def split: prod.splits)

lemma weighted_score_empty: "weighted_score [] [] = ([], Inl ZeroDivisionError)"
  by (simp add: weighted_score_def np_elementwise_def py_sum_def)

lemma fidelity_range:
  assumes "get_preds expl bb d = Inr s" and "s \<noteq> []" and "list_all (\<lambda>x. x = 0 \<or> x = 1) s"
  shows "\<exists>v. fidelity expl bb d = ([], Inr (Finite v)) \<and> 0 \<le> v \<and> v \<le> 1"
proof -
  from assms(2) have "0 < real (length s)" by simp
  with sum_same_bounds [OF assms(3)]
  have "0 \<le> sum_list (map of_int s) / real (length s)"
    and "sum_list (map of_int s) / real (length s) \<le> 1"
    by simp_all
  with fidelity_finite [OF assms(1,2)] show ?thesis by blast
qed

subsection \<open>The metrics on the concrete collaborators\<close>

lemma three_points_X: "data_X three_points = [[0, 0], [1, 1], [1 / 2, 1 / 2]]"
  and three_points_labelled_X: "data_X three_points_labelled = [[0, 0], [1, 1], [1 / 2, 1 / 2]]"
  and three_points_y: "data_y three_points = None"
  and three_points_labelled_y: "data_y three_points_labelled = Some [0, 1, 0]"
  by (simp_all add: three_points_def three_points_labelled_def)

lemma box_labels:
  "predict threshold_box [[0, 0], [1, 1], [1 / 2, 1 / 2]] = Inr [0, 1, 0]"
  by (simp add: threshold_box_def)

lemma trained_labels:
  "predict (as_model counter_env trained) [[0, 0], [1, 1], [1 / 2, 1 / 2]] = Inr [0, 1, 1]"
  by (simp add: as_model_def bLIMEy_predict_def trained_def fitted_def
      counter_env_def linear_predict_def column_1_def to_int64_def np_heaviside_def)

lemma models_on_no_points:
  "predict threshold_box [] = Inr []"
  "predict refusing_box [] = Inl ValueError"
  "Ridge_predict counter_env fitted [] = Inl ValueError"
  "predict (as_model counter_env trained) [] = Inl ValueError"
  by (simp_all add: threshold_box_def refusing_box_def as_model_def bLIMEy_predict_def trained_def
      counter_env_def linear_predict_def)

lemma class_weights_truncated:
  "get_class_weights kernel_env three_points_labelled = ([], Inr [1, 3, 1])"
  "get_class_weights zero_weight_env three_points_labelled = ([], Inr [0, 0, 0])"
  by (simp_all add: get_class_weights_def three_points_labelled_def three_points_def
      kernel_env_def zero_weight_env_def counter_env_def assign_mask_def to_int64_def
      upt_rec [of 0] upt_rec [of 1] upt_rec [of 2])

lemma same_preds_three_points:
  "get_preds (as_model counter_env trained) threshold_box three_points = Inr [1, 1, 0]"
  "get_preds (as_model counter_env trained) threshold_box three_points_labelled = Inr [1, 1, 0]"
  by (simp_all add: get_preds_def three_points_X three_points_labelled_X box_labels trained_labels
      np_elementwise_def)

lemma zero_weights:
  "weights_based_on_distance zero_weight_env [0, 0] (data_X three_points) = Inr [0, 0, 0]"
  "weights_based_on_distance zero_weight_env [0, 0] (data_X three_points_labelled) = Inr [0, 0, 0]"
  by (simp_all add: zero_weight_env_def three_points_X three_points_labelled_X)

subsection \<open>The claims\<close>

text \<open>
  Claim C7. When both models return one label per row of the dataset, plain fidelity
  equals local fidelity computed with an all-ones weight vector in place of the
  distance weights (exactly, over the reals; warnings and errors included), and on a
  non-empty dataset the common value is a finite score.
\<close>

theorem fidelity_is_local_fidelity_with_ones:
  assumes "predict bb (data_X d) = Inr pb" and "predict expl (data_X d) = Inr pe"
    and "length pb = length (data_X d)" and "length pe = length (data_X d)"
    and "weights_based_on_distance e qp (data_X d) = Inr (np_ones (length (data_X d)))"
  shows "local_fidelity e expl bb d qp = fidelity expl bb d \<and>
         (data_X d \<noteq> [] \<longrightarrow> (\<exists>v. fidelity expl bb d = ([], Inr (Finite v))))"
proof -
  from get_preds_same_length [OF assms(1-4)]
  obtain s where g: "get_preds expl bb d = Inr s" and n: "length s = length (data_X d)"
    by blast
  have "local_fidelity e expl bb d qp = weighted_score s (np_ones (length s))"
    using g assms(5) n by (simp add: local_fidelity_def)
  moreover have "weighted_score s (np_ones (length s)) = fidelity expl bb d"
    using g by (simp add: weighted_score_ones fidelity_def)
  ultimately have "local_fidelity e expl bb d qp = fidelity expl bb d"
    by simp
  moreover have "data_X d \<noteq> [] \<longrightarrow> (\<exists>v. fidelity expl bb d = ([], Inr (Finite v)))"
  proof
    assume "data_X d \<noteq> []"
    with n have "s \<noteq> []" by auto
    with g show "\<exists>v. fidelity expl bb d = ([], Inr (Finite v))"
      using fidelity_finite by blast
  qed
  ultimately show ?thesis by simp
qed

theorem fidelity_is_local_fidelity_with_ones_witness:
  "weights_based_on_distance counter_env [0, 0] (data_X three_points) = Inr [1, 1, 1] \<and>
   local_fidelity counter_env (as_model counter_env trained) threshold_box three_points [0, 0] =
     fidelity (as_model counter_env trained) threshold_box three_points \<and>
   (\<exists>v. fidelity (as_model counter_env trained) threshold_box three_points = ([], Inr (Finite v)))"
proof -
  have w: "weights_based_on_distance counter_env [0, 0] (data_X three_points) =
      Inr (np_ones (length (data_X three_points)))"
    by (simp add: counter_env_def)
  have n: "length [0, 1, 0 :: int] = length (data_X three_points)"
    "length [0, 1, 1 :: int] = length (data_X three_points)"
    by (simp_all add: three_points_X)
  have ne: "data_X three_points \<noteq> []"
    by (simp add: three_points_X)
  from fidelity_is_local_fidelity_with_ones [of threshold_box three_points "[0, 1, 0]"
      "as_model counter_env trained" "[0, 1, 1]" counter_env "[0, 0]"]
    box_labels trained_labels n w ne
  show ?thesis
    by (simp add: three_points_X np_ones_def)
qed

text \<open>
  Claim C8. On a dataset without a label vector, when both models return one label per
  row, class-balanced fidelity returns the value of plain fidelity and logs the warning
  \<open>no_class_data\<close> in front of whatever plain fidelity logs; on a non-empty dataset it
  raises nothing and returns a finite score with that single warning.
\<close>

theorem bal_fidelity_without_labels:
  assumes "data_y d = None"
    and "predict bb (data_X d) = Inr pb" and "predict expl (data_X d) = Inr pe"
    and "length pb = length (data_X d)" and "length pe = length (data_X d)"
  shows "snd (bal_fidelity e expl bb d) = snd (fidelity expl bb d) \<and>
         fst (bal_fidelity e expl bb d) = no_class_data # fst (fidelity expl bb d) \<and>
         (data_X d \<noteq> [] \<longrightarrow> (\<exists>v. bal_fidelity e expl bb d = ([no_class_data], Inr (Finite v))))"
proof -
  from get_preds_same_length [OF assms(2-5)]
  obtain s where g: "get_preds expl bb d = Inr s" and n: "length s = length (data_X d)"
    by blast
  have w: "get_class_weights e d = ([no_class_data], Inr (np_ones (length s)))"
    using assms(1) n by (simp add: get_class_weights_def)
  have f: "fidelity expl bb d = weighted_score s (np_ones (length s))"
    using g by (simp add: weighted_score_ones fidelity_def)
  have b: "bal_fidelity e expl bb d = (no_class_data # fst (fidelity expl bb d), snd (fidelity expl bb d))"
    using g w f by (simp add: bal_fidelity_def split: prod.splits)
  have "data_X d \<noteq> [] \<longrightarrow> (\<exists>v. bal_fidelity e expl bb d = ([no_class_data], Inr (Finite v)))"
  proof
    assume "data_X d \<noteq> []"
    with n have "s \<noteq> []" by auto
    with g obtain v where "fidelity expl bb d = ([], Inr (Finite v))"
      using fidelity_finite by blast
    with b show "\<exists>v. bal_fidelity e expl bb d = ([no_class_data], Inr (Finite v))"
      by simp
  qed
  with b show ?thesis by simp
qed

theorem bal_fidelity_without_labels_witness:
  "data_y three_points = None \<and>
   snd (bal_fidelity kernel_env (as_model counter_env trained) threshold_box three_points) =
     snd (fidelity (as_model counter_env trained) threshold_box three_points) \<and>
   fst (bal_fidelity kernel_env (as_model counter_env trained) threshold_box three_points) =
     no_class_data # fst (fidelity (as_model counter_env trained) threshold_box three_points) \<and>
   (\<exists>v. bal_fidelity kernel_env (as_model counter_env trained) threshold_box three_points =
          ([no_class_data], Inr (Finite v)))"
proof -
  have n: "length [0, 1, 0 :: int] = length (data_X three_points)"
    "length [0, 1, 1 :: int] = length (data_X three_points)"
    by (simp_all add: three_points_X)
  have ne: "data_X three_points \<noteq> []"
    by (simp add: three_points_X)
  from bal_fidelity_without_labels [of three_points threshold_box "[0, 1, 0]"
      "as_model counter_env trained" "[0, 1, 1]" kernel_env]
    box_labels trained_labels n ne three_points_y
  show ?thesis
    by (simp add: three_points_X)
qed

text \<open>
  Claim C9. On a non-empty dataset on which both models return one label per row, plain
  fidelity returns a score in \<open>[0, 1]\<close>; and each of the three weighted variants returns
  a score in \<open>[0, 1]\<close> whenever the weight vector it constructs has one entry per row,
  no negative entry and a positive sum.
\<close>

theorem fidelity_scores_in_unit_interval:
  assumes "predict bb (data_X d) = Inr pb" and "predict expl (data_X d) = Inr pe"
    and "length pb = length (data_X d)" and "length pe = length (data_X d)"
    and "data_X d \<noteq> []"
  shows "(\<exists>v. snd (fidelity expl bb d) = Inr (Finite v) \<and> 0 \<le> v \<and> v \<le> 1) \<and>
    (\<forall>w. weights_based_on_distance e qp (data_X d) = Inr w \<and>
          length w = length (data_X d) \<and> list_all (\<lambda>x. 0 \<le> x) w \<and> 0 < sum_list w \<longrightarrow>
          (\<exists>v. snd (local_fidelity e expl bb d qp) = Inr (Finite v) \<and> 0 \<le> v \<and> v \<le> 1)) \<and>
    (\<forall>w. snd (get_class_weights e d) = Inr w \<and>
          length w = length (data_X d) \<and> list_all (\<lambda>x. 0 \<le> x) w \<and> 0 < sum_list w \<longrightarrow>
          (\<exists>v. snd (bal_fidelity e expl bb d) = Inr (Finite v) \<and> 0 \<le> v \<and> v \<le> 1)) \<and>
    (\<forall>w0 cw w. weights_based_on_distance e qp (data_X d) = Inr w0 \<and>
          snd (get_class_weights e d) = Inr cw \<and> np_imul w0 cw = Inr w \<and>
          length w = length (data_X d) \<and> list_all (\<lambda>x. 0 \<le> x) w \<and> 0 < sum_list w \<longrightarrow>
          (\<exists>v. snd (local_and_bal_fidelity e expl bb d qp) = Inr (Finite v) \<and> 0 \<le> v \<and> v \<le> 1))"
proof -
  from get_preds_same_length [OF assms(1-4)]
  obtain s where g: "get_preds expl bb d = Inr s" and n: "length s = length (data_X d)"
    and b: "list_all (\<lambda>x. x = 0 \<or> x = 1) s"
    by blast
  from n assms(5) have ne: "s \<noteq> []" by auto
  have r: "\<exists>v. snd (weighted_score s w) = Inr (Finite v) \<and> 0 \<le> v \<and> v \<le> 1"
    if "length w = length (data_X d)" "list_all (\<lambda>x. 0 \<le> x) w" "0 < sum_list w" for w
  proof -
    from that n have "length s = length w" by simp
    from weighted_score_range [OF this b that(2,3)] show ?thesis by auto
  qed
  have 1: "\<exists>v. snd (fidelity expl bb d) = Inr (Finite v) \<and> 0 \<le> v \<and> v \<le> 1"
    using fidelity_range [OF g ne b] by auto
  have 2: "\<exists>v. snd (local_fidelity e expl bb d qp) = Inr (Finite v) \<and> 0 \<le> v \<and> v \<le> 1"
    if "weights_based_on_distance e qp (data_X d) = Inr w"
      "length w = length (data_X d)" "list_all (\<lambda>x. 0 \<le> x) w" "0 < sum_list w" for w
    using r [OF that(2-4)] local_fidelity_score [OF g that(1)] by simp
  have 3: "\<exists>v. snd (bal_fidelity e expl bb d) = Inr (Finite v) \<and> 0 \<le> v \<and> v \<le> 1"
    if "snd (get_class_weights e d) = Inr w"
      "length w = length (data_X d)" "list_all (\<lambda>x. 0 \<le> x) w" "0 < sum_list w" for w
    using r [OF that(2-4)] bal_fidelity_score [OF g that(1)] by simp
  have 4: "\<exists>v. snd (local_and_bal_fidelity e expl bb d qp) = Inr (Finite v) \<and> 0 \<le> v \<and> v \<le> 1"
    if "weights_based_on_distance e qp (data_X d) = Inr w0"
      "snd (get_class_weights e d) = Inr cw" "np_imul w0 cw = Inr w"
      "length w = length (data_X d)" "list_all (\<lambda>x. 0 \<le> x) w" "0 < sum_list w" for w0 cw w
    using r [OF that(4-6)] local_and_bal_fidelity_score [OF g that(1-3)] by simp
  from 1 2 3 4 show ?thesis by blast
qed

theorem fidelity_scores_in_unit_interval_witness:
  "(\<exists>v. snd (fidelity (as_model counter_env trained) threshold_box three_points_labelled) =
          Inr (Finite v) \<and> 0 \<le> v \<and> v \<le> 1) \<and>
   (\<exists>v. snd (local_fidelity kernel_env (as_model counter_env trained) threshold_box
               three_points_labelled [0, 0]) = Inr (Finite v) \<and> 0 \<le> v \<and> v \<le> 1) \<and>
   (\<exists>v. snd (bal_fidelity kernel_env (as_model counter_env trained) threshold_box
               three_points_labelled) = Inr (Finite v) \<and> 0 \<le> v \<and> v \<le> 1) \<and>
   (\<exists>v. snd (local_and_bal_fidelity kernel_env (as_model counter_env trained) threshold_box
               three_points_labelled [0, 0]) = Inr (Finite v) \<and> 0 \<le> v \<and> v \<le> 1)"
proof -
  let ?d = three_points_labelled
  have p: "predict threshold_box (data_X ?d) = Inr [0, 1, 0]"
    "predict (as_model counter_env trained) (data_X ?d) = Inr [0, 1, 1]"
    using box_labels trained_labels by (simp_all add: three_points_labelled_X)
  have n: "length [0, 1, 0 :: int] = length (data_X ?d)"
    "length [0, 1, 1 :: int] = length (data_X ?d)"
    by (simp_all add: three_points_labelled_X)
  have ne: "data_X ?d \<noteq> []"
    by (simp add: three_points_labelled_X)
  have w0: "weights_based_on_distance kernel_env [0, 0] (data_X ?d) = Inr [1, 1 / 3, 2 / 3]"
    by (simp add: kernel_env_def three_points_labelled_X)
  have cw: "snd (get_class_weights kernel_env ?d) = Inr [1, 3, 1]"
    by (simp add: class_weights_truncated)
  have m: "np_imul [1, 1 / 3, 2 / 3] [1, 3, 1] = Inr [1, 1, 2 / 3]"
    by (simp add: np_imul_def)
  note t = fidelity_scores_in_unit_interval [OF p n ne, of kernel_env "[0, 0]"]
  from t have 1: "\<exists>v. snd (fidelity (as_model counter_env trained) threshold_box ?d) =
          Inr (Finite v) \<and> 0 \<le> v \<and> v \<le> 1"
    by blast
  from t have "weights_based_on_distance kernel_env [0, 0] (data_X ?d) = Inr [1, 1 / 3, 2 / 3] \<and>
      length [1, 1 / 3, 2 / 3 :: real] = length (data_X ?d) \<and>
      list_all (\<lambda>x. 0 \<le> x) [1, 1 / 3, 2 / 3 :: real] \<and> 0 < sum_list [1, 1 / 3, 2 / 3 :: real] \<longrightarrow>
      (\<exists>v. snd (local_fidelity kernel_env (as_model counter_env trained) threshold_box ?d [0, 0]) =
          Inr (Finite v) \<and> 0 \<le> v \<and> v \<le> 1)"
    by blast
  with w0 have 2: "\<exists>v. snd (local_fidelity kernel_env (as_model counter_env trained) threshold_box ?d [0, 0]) =
          Inr (Finite v) \<and> 0 \<le> v \<and> v \<le> 1"
    by (simp add: three_points_labelled_X)
  from t have "snd (get_class_weights kernel_env ?d) = Inr [1, 3, 1] \<and>
      length [1, 3, 1 :: real] = length (data_X ?d) \<and>
      list_all (\<lambda>x. 0 \<le> x) [1, 3, 1 :: real] \<and> 0 < sum_list [1, 3, 1 :: real] \<longrightarrow>
      (\<exists>v. snd (bal_fidelity kernel_env (as_model counter_env trained) threshold_box ?d) =
          Inr (Finite v) \<and> 0 \<le> v \<and> v \<le> 1)"
    by blast
  with cw have 3: "\<exists>v. snd (bal_fidelity kernel_env (as_model counter_env trained) threshold_box ?d) =
          Inr (Finite v) \<and> 0 \<le> v \<and> v \<le> 1"
    by (simp add: three_points_labelled_X)
  from t have "weights_based_on_distance kernel_env [0, 0] (data_X ?d) = Inr [1, 1 / 3, 2 / 3] \<and>
      snd (get_class_weights kernel_env ?d) = Inr [1, 3, 1] \<and>
      np_imul [1, 1 / 3, 2 / 3] [1, 3, 1] = Inr [1, 1, 2 / 3] \<and>
      length [1, 1, 2 / 3 :: real] = length (data_X ?d) \<and>
      list_all (\<lambda>x. 0 \<le> x) [1, 1, 2 / 3 :: real] \<and> 0 < sum_list [1, 1, 2 / 3 :: real] \<longrightarrow>
      (\<exists>v. snd (local_and_bal_fidelity kernel_env (as_model counter_env trained) threshold_box ?d [0, 0]) =
          Inr (Finite v) \<and> 0 \<le> v \<and> v \<le> 1)"
    by blast
  with w0 cw m have 4: "\<exists>v. snd (local_and_bal_fidelity kernel_env (as_model counter_env trained)
          threshold_box ?d [0, 0]) = Inr (Finite v) \<and> 0 \<le> v \<and> v \<le> 1"
    by (simp add: three_points_labelled_X)
  from 1 2 3 4 show ?thesis by blast
qed

text \<open>
  Claim C4. The specification asks that a fidelity call fails with an \<^verbatim>\<open>ArithmeticError\<close>
  when the weights sum to zero, and never returns \<^verbatim>\<open>nan\<close> or an infinity. The weighted
  variants divide two numpy scalars, \<^verbatim>\<open>sum(same_preds*weights)/ sum(weights)\<close>, and numpy
  does not raise on a zero divisor: on three points whose distance weights are all
  zero, local fidelity returns \<^verbatim>\<open>nan\<close> with a \<^verbatim>\<open>RuntimeWarning\<close>.
\<close>

theorem fidelity_zero_weight_counterexample:
  "weights_based_on_distance zero_weight_env [0, 0] (data_X three_points) = Inr [0, 0, 0] \<and>
   local_fidelity zero_weight_env (as_model counter_env trained) threshold_box three_points [0, 0] =
     ([RuntimeWarning ''invalid value encountered''], Inr NaN)"
  by (simp add: local_fidelity_def same_preds_three_points zero_weights
      np_elementwise_def weighted_score_def py_sum_def np_divide_def)

lemma get_preds_raises:
  "predict bb (data_X d) = Inl err \<Longrightarrow> get_preds expl bb d = Inl err"
  "predict bb (data_X d) = Inr pb \<Longrightarrow> predict expl (data_X d) = Inl err \<Longrightarrow>
     get_preds expl bb d = Inl err"
  by (simp_all add: get_preds_def)

lemma metrics_raise_with_get_preds:
  assumes "get_preds expl bb d = Inl err"
  shows "fidelity expl bb d = ([], Inl err) \<and> local_fidelity e expl bb d qp = ([], Inl err) \<and>
         bal_fidelity e expl bb d = ([], Inl err) \<and>
         local_and_bal_fidelity e expl bb d qp = ([], Inl err)"
  using assms
  by (simp add: fidelity_def local_fidelity_def bal_fidelity_def local_and_bal_fidelity_def)

lemma bLIMEy_predict_raises:
  "surrogate_model b = Some sm \<Longrightarrow> Ridge_predict e sm Xs = Inl err \<Longrightarrow>
     predict (as_model e b) Xs = Inl err"
  by (simp add: as_model_def bLIMEy_predict_def)

lemma bal_fidelity_log:
  assumes "get_preds expl bb d = Inr s" and "snd (get_class_weights e d) = Inr w"
  shows "bal_fidelity e expl bb d =
     (fst (get_class_weights e d) @ fst (weighted_score s w), snd (weighted_score s w))"
  using assms by (cases "get_class_weights e d") (simp add: bal_fidelity_def split: prod.splits)

lemma local_and_bal_fidelity_log:
  assumes "get_preds expl bb d = Inr s" and "weights_based_on_distance e qp (data_X d) = Inr w0"
    and "snd (get_class_weights e d) = Inr cw" and "np_imul w0 cw = Inr w"
  shows "local_and_bal_fidelity e expl bb d qp =
     (fst (get_class_weights e d) @ fst (weighted_score s w), snd (weighted_score s w))"
  using assms
  by (cases "get_class_weights e d") (simp add: local_and_bal_fidelity_def split: prod.splits)

lemma weighted_score_zero_sum_warns:
  assumes "length s = length w" and "w \<noteq> []" and "sum_list w = 0"
  shows "\<exists>m v. weighted_score s w = ([RuntimeWarning m], Inr v) \<and> v \<in> {NaN, PosInf, NegInf}"
proof -
  from assms have "s \<noteq> []" by auto
  with assms show ?thesis
    by (simp add: weighted_score_def np_elementwise_def py_sum_nonempty np_divide_def)
qed

text \<open>
  Claim C4, as amended. On an empty dataset no fidelity call returns a score, and which
  error it fails with is decided by the models, which \<^verbatim>\<open>_get_preds\<close> asks first: when
  a \<^verbatim>\<open>predict\<close> raises on the empty matrix, each of the four calls fails with that
  error; so with the explainer of this repository, whose ridge predictor raises on a
  matrix without rows (a \<^verbatim>\<open>ValueError\<close> in scikit-learn, which is no
  \<^verbatim>\<open>ArithmeticError\<close>), each call fails with the error of the predictor. Only when both
  models return an empty label array (and the constructed weight vector is empty)
  does the division run, and each call fails with \<^verbatim>\<open>ZeroDivisionError\<close>, an
  \<^verbatim>\<open>ArithmeticError\<close>. On a non-empty dataset on which both models return one label per
  row, plain fidelity returns a finite score without a warning, and a weighted variant
  whose constructed weight vector has one entry per row and sums to zero raises
  nothing: it returns \<^verbatim>\<open>nan\<close> or an infinity, and logs one \<^verbatim>\<open>RuntimeWarning\<close> of numpy
  after the warnings of the weight construction.
\<close>

theorem fidelity_empty_or_zero_weight:
  "(data_X d = [] \<longrightarrow>
      (\<forall>err. predict bb [] = Inl err \<or>
             (\<exists>pb. predict bb [] = Inr pb) \<and> predict expl [] = Inl err \<longrightarrow>
         fidelity expl bb d = ([], Inl err) \<and>
         local_fidelity e expl bb d qp = ([], Inl err) \<and>
         bal_fidelity e expl bb d = ([], Inl err) \<and>
         local_and_bal_fidelity e expl bb d qp = ([], Inl err)) \<and>
      (\<forall>b sm err. surrogate_model b = Some sm \<and> Ridge_predict e sm [] = Inl err \<and>
             (\<exists>pb. predict bb [] = Inr pb) \<longrightarrow>
         fidelity (as_model e b) bb d = ([], Inl err) \<and>
         local_fidelity e (as_model e b) bb d qp = ([], Inl err) \<and>
         bal_fidelity e (as_model e b) bb d = ([], Inl err) \<and>
         local_and_bal_fidelity e (as_model e b) bb d qp = ([], Inl err)) \<and>
      (predict bb [] = Inr [] \<and> predict expl [] = Inr [] \<longrightarrow>
         fidelity expl bb d = ([], Inl ZeroDivisionError) \<and>
         is_ArithmeticError ZeroDivisionError \<and>
         (weights_based_on_distance e qp [] = Inr [] \<longrightarrow>
            local_fidelity e expl bb d qp = ([], Inl ZeroDivisionError)) \<and>
         (snd (get_class_weights e d) = Inr [] \<longrightarrow>
            bal_fidelity e expl bb d = (fst (get_class_weights e d), Inl ZeroDivisionError)) \<and>
         (weights_based_on_distance e qp [] = Inr [] \<and> snd (get_class_weights e d) = Inr [] \<longrightarrow>
            local_and_bal_fidelity e expl bb d qp =
              (fst (get_class_weights e d), Inl ZeroDivisionError)))) \<and>
   (data_X d \<noteq> [] \<and> predict bb (data_X d) = Inr pb \<and> predict expl (data_X d) = Inr pe \<and>
    length pb = length (data_X d) \<and> length pe = length (data_X d) \<longrightarrow>
      (\<exists>v. fidelity expl bb d = ([], Inr (Finite v))) \<and>
      (\<forall>w. weights_based_on_distance e qp (data_X d) = Inr w \<and>
            length w = length (data_X d) \<and> sum_list w = 0 \<longrightarrow>
            (\<exists>m v. local_fidelity e expl bb d qp = ([RuntimeWarning m], Inr v) \<and>
                   v \<in> {NaN, PosInf, NegInf})) \<and>
      (\<forall>w. snd (get_class_weights e d) = Inr w \<and>
            length w = length (data_X d) \<and> sum_list w = 0 \<longrightarrow>
            (\<exists>m v. bal_fidelity e expl bb d =
                     (fst (get_class_weights e d) @ [RuntimeWarning m], Inr v) \<and>
                   v \<in> {NaN, PosInf, NegInf})) \<and>
      (\<forall>w0 cw w. weights_based_on_distance e qp (data_X d) = Inr w0 \<and>
            snd (get_class_weights e d) = Inr cw \<and> np_imul w0 cw = Inr w \<and>
            length w = length (data_X d) \<and> sum_list w = 0 \<longrightarrow>
            (\<exists>m v. local_and_bal_fidelity e expl bb d qp =
                     (fst (get_class_weights e d) @ [RuntimeWarning m], Inr v) \<and>
                   v \<in> {NaN, PosInf, NegInf})))"
proof (intro conjI impI allI)
  fix err
  assume x: "data_X d = []"
    and "predict bb [] = Inl err \<or> (\<exists>pb. predict bb [] = Inr pb) \<and> predict expl [] = Inl err"
  then have g: "get_preds expl bb d = Inl err"
    using get_preds_raises [of bb d] by auto
  from metrics_raise_with_get_preds [OF g, of e qp]
  show "fidelity expl bb d = ([], Inl err)" "local_fidelity e expl bb d qp = ([], Inl err)"
    "bal_fidelity e expl bb d = ([], Inl err)" "local_and_bal_fidelity e expl bb d qp = ([], Inl err)"
    by simp_all
next
  fix b :: bLIMEy and sm err
  assume x: "data_X d = []"
    and a: "surrogate_model b = Some sm \<and> Ridge_predict e sm [] = Inl err \<and>
      (\<exists>pb. predict bb [] = Inr pb)"
  then have "predict (as_model e b) (data_X d) = Inl err"
    using bLIMEy_predict_raises [of b sm e "[]" err] by simp
  with x a have g: "get_preds (as_model e b) bb d = Inl err"
    using get_preds_raises(2) [of bb d _ "as_model e b" err] by auto
  from metrics_raise_with_get_preds [OF g, of e qp]
  show "fidelity (as_model e b) bb d = ([], Inl err)"
    "local_fidelity e (as_model e b) bb d qp = ([], Inl err)"
    "bal_fidelity e (as_model e b) bb d = ([], Inl err)"
    "local_and_bal_fidelity e (as_model e b) bb d qp = ([], Inl err)"
    by simp_all
next
  assume x: "data_X d = []" and a: "predict bb [] = Inr [] \<and> predict expl [] = Inr []"
  then have g: "get_preds expl bb d = Inr []"
    by (simp add: get_preds_def np_elementwise_def)
  show "fidelity expl bb d = ([], Inl ZeroDivisionError)"
    using g by (simp add: fidelity_def py_sum_def py_len_def)
  show "is_ArithmeticError ZeroDivisionError"
    by simp
  show "local_fidelity e expl bb d qp = ([], Inl ZeroDivisionError)"
    if "weights_based_on_distance e qp [] = Inr []"
    using that x local_fidelity_score [OF g, of e qp "[]"] by (simp add: weighted_score_empty)
  show "bal_fidelity e expl bb d = (fst (get_class_weights e d), Inl ZeroDivisionError)"
    if "snd (get_class_weights e d) = Inr []"
    using bal_fidelity_log [OF g that] by (simp add: weighted_score_empty)
  show "local_and_bal_fidelity e expl bb d qp = (fst (get_class_weights e d), Inl ZeroDivisionError)"
    if "weights_based_on_distance e qp [] = Inr [] \<and> snd (get_class_weights e d) = Inr []"
    using that x local_and_bal_fidelity_log [OF g, of e qp "[]" "[]" "[]"]
    by (simp add: weighted_score_empty np_imul_def)
next
  assume a: "data_X d \<noteq> [] \<and> predict bb (data_X d) = Inr pb \<and> predict expl (data_X d) = Inr pe \<and>
    length pb = length (data_X d) \<and> length pe = length (data_X d)"
  with get_preds_same_length [of bb d pb expl pe]
  obtain s where g: "get_preds expl bb d = Inr s" and n: "length s = length (data_X d)"
    by blast
  from n a have ne: "s \<noteq> []" by auto
  have z: "\<exists>m v. weighted_score s w = ([RuntimeWarning m], Inr v) \<and> v \<in> {NaN, PosInf, NegInf}"
    if "length w = length (data_X d)" "sum_list w = 0" for w
  proof -
    from that n ne have "length s = length w" "w \<noteq> []" by auto
    from weighted_score_zero_sum_warns [OF this that(2)] show ?thesis .
  qed
  show "\<exists>v. fidelity expl bb d = ([], Inr (Finite v))"
    using fidelity_finite [OF g ne] by simp
  show "\<exists>m v. local_fidelity e expl bb d qp = ([RuntimeWarning m], Inr v) \<and>
                   v \<in> {NaN, PosInf, NegInf}"
    if "weights_based_on_distance e qp (data_X d) = Inr w \<and>
            length w = length (data_X d) \<and> sum_list w = 0" for w
    using that z [of w] local_fidelity_score [OF g, of e qp w] by simp
  show "\<exists>m v. bal_fidelity e expl bb d =
                     (fst (get_class_weights e d) @ [RuntimeWarning m], Inr v) \<and>
                   v \<in> {NaN, PosInf, NegInf}"
    if "snd (get_class_weights e d) = Inr w \<and>
            length w = length (data_X d) \<and> sum_list w = 0" for w
  proof -
    from that z [of w] obtain m v where
      "weighted_score s w = ([RuntimeWarning m], Inr v)" "v \<in> {NaN, PosInf, NegInf}"
      by blast
    with that bal_fidelity_log [OF g, of e w] show ?thesis by simp
  qed
  show "\<exists>m v. local_and_bal_fidelity e expl bb d qp =
                     (fst (get_class_weights e d) @ [RuntimeWarning m], Inr v) \<and>
                   v \<in> {NaN, PosInf, NegInf}"
    if "weights_based_on_distance e qp (data_X d) = Inr w0 \<and>
            snd (get_class_weights e d) = Inr cw \<and> np_imul w0 cw = Inr w \<and>
            length w = length (data_X d) \<and> sum_list w = 0" for w0 cw w
  proof -
    from that z [of w] obtain m v where
      "weighted_score s w = ([RuntimeWarning m], Inr v)" "v \<in> {NaN, PosInf, NegInf}"
      by blast
    with that local_and_bal_fidelity_log [OF g, of e qp w0 cw w] show ?thesis by simp
  qed
qed

theorem fidelity_empty_or_zero_weight_witness:
  "fidelity threshold_box refusing_box no_points = ([], Inl ValueError) \<and>
   local_and_bal_fidelity counter_env threshold_box refusing_box no_points [0, 0] =
     ([], Inl ValueError) \<and>
   Ridge_predict counter_env fitted [] = Inl ValueError \<and>
   fidelity (as_model counter_env trained) threshold_box no_points = ([], Inl ValueError) \<and>
   local_fidelity counter_env (as_model counter_env trained) threshold_box no_points [0, 0] =
     ([], Inl ValueError) \<and>
   bal_fidelity counter_env (as_model counter_env trained) threshold_box no_points =
     ([], Inl ValueError) \<and>
   local_and_bal_fidelity counter_env (as_model counter_env trained) threshold_box no_points [0, 0] =
     ([], Inl ValueError) \<and>
   is_ArithmeticError ValueError = False \<and>
   fidelity threshold_box threshold_box no_points = ([], Inl ZeroDivisionError) \<and>
   local_fidelity counter_env threshold_box threshold_box no_points [0, 0] =
     ([], Inl ZeroDivisionError) \<and>
   bal_fidelity counter_env threshold_box threshold_box no_points =
     ([no_class_data], Inl ZeroDivisionError) \<and>
   local_and_bal_fidelity counter_env threshold_box threshold_box no_points [0, 0] =
     ([no_class_data], Inl ZeroDivisionError) \<and>
   (\<exists>v. fidelity (as_model counter_env trained) threshold_box three_points_labelled =
          ([], Inr (Finite v))) \<and>
   (\<exists>m v. local_fidelity zero_weight_env (as_model counter_env trained) threshold_box
            three_points_labelled [0, 0] = ([RuntimeWarning m], Inr v) \<and>
          v \<in> {NaN, PosInf, NegInf}) \<and>
   (\<exists>m v. bal_fidelity zero_weight_env (as_model counter_env trained) threshold_box
            three_points_labelled = ([RuntimeWarning m], Inr v) \<and>
          v \<in> {NaN, PosInf, NegInf}) \<and>
   (\<exists>m v. local_and_bal_fidelity zero_weight_env (as_model counter_env trained) threshold_box
            three_points_labelled [0, 0] = ([RuntimeWarning m], Inr v) \<and>
          v \<in> {NaN, PosInf, NegInf})"
proof -
  let ?x = "as_model counter_env trained"
  let ?d = three_points_labelled
  have x: "data_X no_points = []"
    by (simp add: no_points_def)
  have sm: "surrogate_model trained = Some fitted"
    by (simp add: trained_def)
  have e: "weights_based_on_distance counter_env [0, 0] [] = Inr []"
    "snd (get_class_weights counter_env no_points) = Inr []"
    "fst (get_class_weights counter_env no_points) = [no_class_data]"
    by (simp_all add: no_points_def counter_env_def get_class_weights_def np_ones_def)
  note empty = fidelity_empty_or_zero_weight [THEN conjunct1, THEN mp, OF x]
  have "predict refusing_box [] = Inl ValueError \<or>
      (\<exists>pb. predict refusing_box [] = Inr pb) \<and> predict threshold_box [] = Inl ValueError"
    by (simp add: models_on_no_points)
  note r = empty [of refusing_box threshold_box counter_env "[0, 0]", THEN conjunct1,
      THEN spec [of _ ValueError], THEN mp, OF this]
  have "surrogate_model trained = Some fitted \<and> Ridge_predict counter_env fitted [] = Inl ValueError \<and>
      (\<exists>pb. predict threshold_box [] = Inr pb)"
    by (simp add: sm models_on_no_points)
  note v = empty [of threshold_box threshold_box counter_env "[0, 0]", THEN conjunct2, THEN conjunct1,
      THEN spec [of _ trained], THEN spec [of _ fitted], THEN spec [of _ ValueError], THEN mp, OF this]
  have "predict threshold_box [] = Inr [] \<and> predict threshold_box [] = Inr []"
    by (simp add: models_on_no_points)
  note z = empty [of threshold_box threshold_box counter_env "[0, 0]", THEN conjunct2, THEN conjunct2,
      THEN mp, OF this]
  note z1 = z [THEN conjunct1]
  note z2 = z [THEN conjunct2, THEN conjunct2, THEN conjunct1, THEN mp, OF e(1)]
  note z3 = z [THEN conjunct2, THEN conjunct2, THEN conjunct2, THEN conjunct1, THEN mp, OF e(2)]
  note z4 = z [THEN conjunct2, THEN conjunct2, THEN conjunct2, THEN conjunct2, THEN mp,
      OF conjI [OF e(1) e(2)]]
  have p: "data_X ?d \<noteq> [] \<and> predict threshold_box (data_X ?d) = Inr [0, 1, 0] \<and>
      predict ?x (data_X ?d) = Inr [0, 1, 1] \<and>
      length [0, 1, 0 :: int] = length (data_X ?d) \<and> length [0, 1, 1 :: int] = length (data_X ?d)"
    using box_labels trained_labels by (simp add: three_points_labelled_X)
  note zero = fidelity_empty_or_zero_weight [of ?d threshold_box ?x zero_weight_env "[0, 0]"
      "[0, 1, 0]" "[0, 1, 1]", THEN conjunct2, THEN mp, OF p]
  have cw: "snd (get_class_weights zero_weight_env ?d) = Inr [0, 0, 0]"
    "fst (get_class_weights zero_weight_env ?d) = []"
    by (simp_all add: class_weights_truncated)
  have l: "length [0, 0, 0 :: real] = length (data_X ?d)" and su: "sum_list [0, 0, 0 :: real] = 0"
    by (simp_all add: three_points_labelled_X)
  have m: "np_imul [0, 0, 0] [0, 0, 0] = Inr [0, 0, 0]"
    by (simp add: np_imul_def)
  note n1 = zero [THEN conjunct1]
  note n2 = zero [THEN conjunct2, THEN conjunct1, THEN spec [of _ "[0, 0, 0]"], THEN mp,
      OF conjI [OF zero_weights(2) conjI [OF l su]]]
  note n3 = zero [THEN conjunct2, THEN conjunct2, THEN conjunct1, THEN spec [of _ "[0, 0, 0]"],
      THEN mp, OF conjI [OF cw(1) conjI [OF l su]]]
  note n4 = zero [THEN conjunct2, THEN conjunct2, THEN conjunct2, THEN spec [of _ "[0, 0, 0]"],
      THEN spec [of _ "[0, 0, 0]"], THEN spec [of _ "[0, 0, 0]"], THEN mp,
      OF conjI [OF zero_weights(2) conjI [OF cw(1) conjI [OF m conjI [OF l su]]]]]
  have a: "fidelity threshold_box refusing_box no_points = ([], Inl ValueError)"
    "local_and_bal_fidelity counter_env threshold_box refusing_box no_points [0, 0] =
      ([], Inl ValueError)"
    using r by simp_all
  have b: "fidelity ?x threshold_box no_points = ([], Inl ValueError)"
    "local_fidelity counter_env ?x threshold_box no_points [0, 0] = ([], Inl ValueError)"
    "bal_fidelity counter_env ?x threshold_box no_points = ([], Inl ValueError)"
    "local_and_bal_fidelity counter_env ?x threshold_box no_points [0, 0] = ([], Inl ValueError)"
    using v by simp_all
  have c: "bal_fidelity counter_env threshold_box threshold_box no_points =
      ([no_class_data], Inl ZeroDivisionError)"
    "local_and_bal_fidelity counter_env threshold_box threshold_box no_points [0, 0] =
      ([no_class_data], Inl ZeroDivisionError)"
    using z3 z4 e(3) by simp_all
  have d: "\<exists>m v. bal_fidelity zero_weight_env ?x threshold_box ?d = ([RuntimeWarning m], Inr v) \<and>
          v \<in> {NaN, PosInf, NegInf}"
    "\<exists>m v. local_and_bal_fidelity zero_weight_env ?x threshold_box ?d [0, 0] =
          ([RuntimeWarning m], Inr v) \<and> v \<in> {NaN, PosInf, NegInf}"
    using n3 n4 cw(2) by simp_all
  show ?thesis
    by (intro conjI a b c d z1 z2 n1 n2 models_on_no_points(3)) simp
qed

end
